theory Spec2Isabelle
  imports Complex_Main "HOL-Library.AList"
begin

section \<open>JavaScript values and exceptions\<close>

text \<open>
  The values that reach the program from JSON documents (upstream response bodies, the
  session cache) and \<^verbatim>\<open>undefined\<close>. Numbers are integers; an object is an association
  list in which the first binding of a key counts.
\<close>

datatype jsval =
    JUndefined
  | JNull
  | JBool bool
  | JNum int
  | JStr string
  | JArr "jsval list"
  | JObj "(string \<times> jsval) list"

type_synonym object = "(string \<times> jsval) list"

text \<open>
  Exceptions: the built-in \<^verbatim>\<open>TypeError\<close> and \<^verbatim>\<open>RangeError\<close>, a rejected HTTP
  request, and the program's own \<^verbatim>\<open>throw new Error(...)\<close>, given by its message or by
  the fixed part of its message and the value interpolated into it.
\<close>

datatype error = TypeError | RangeError | NetworkError | Error string | ErrorWith string jsval

text \<open>\<^verbatim>\<open>obj.k\<close> and \<^verbatim>\<open>obj.k = v\<close> on an object.\<close>

definition getProp :: "object \<Rightarrow> string \<Rightarrow> jsval" where
  "getProp obj k = (case map_of obj k of None \<Rightarrow> JUndefined | Some v \<Rightarrow> v)"

definition setProp :: "object \<Rightarrow> string \<Rightarrow> jsval \<Rightarrow> object" where
  "setProp obj k v = AList.update k v obj"

text \<open>
  Reading the property \<open>k\<close> of a value that is neither \<^verbatim>\<open>undefined\<close> nor \<^verbatim>\<open>null\<close>:
  the property of an object, \<^verbatim>\<open>undefined\<close> on anything else (none of the property
  names the program reads is a built-in property of a string, number, boolean or array).
\<close>

fun jsGet :: "jsval \<Rightarrow> string \<Rightarrow> jsval" where
  "jsGet (JObj obj) k = getProp obj k"
| "jsGet v k = JUndefined"

definition nullish :: "jsval \<Rightarrow> bool" where
  "nullish v = (v = JUndefined \<or> v = JNull)"

text \<open>\<^verbatim>\<open>v.k\<close> throws a \<^verbatim>\<open>TypeError\<close> on \<^verbatim>\<open>undefined\<close> and \<^verbatim>\<open>null\<close>; \<^verbatim>\<open>v?.k\<close> does not.\<close>

definition member :: "jsval \<Rightarrow> string \<Rightarrow> error + jsval" where
  "member v k = (if nullish v then Inl TypeError else Inr (jsGet v k))"

definition optMember :: "jsval \<Rightarrow> string \<Rightarrow> jsval" where
  "optMember v k = (if nullish v then JUndefined else jsGet v k)"

fun truthy :: "jsval \<Rightarrow> bool" where
  "truthy JUndefined = False"
| "truthy JNull = False"
| "truthy (JBool b) = b"
| "truthy (JNum n) = (n \<noteq> 0)"
| "truthy (JStr s) = (s \<noteq> [])"
| "truthy (JArr xs) = True"
| "truthy (JObj obj) = True"

section \<open>Trend and unit engine\<close>

text \<open>
  The three source files (\<^verbatim>\<open>main_server.js\<close> and two further versions of the same
  server, called part 0 and part 1 below) share the pure helpers of this section.
  JavaScript numbers that hold glucose values, differences of glucose values and
  millisecond time values are modelled as unbounded integers; the one fractional
  computation, the conversion to mmol/L, is modelled in exact rational arithmetic.
\<close>

subsection \<open>computeSinceLastTrendArrowNumber\<close>

text \<open>
  \<^verbatim>\<open>
  function computeSinceLastTrendArrowNumber(diff) {
    if (diff === 0)           return 3; // stable
    if (diff > 0 && diff <= 5)  return 4; // slight up
    if (diff > 5)              return 5; // up
    if (diff < 0 && diff >= -5) return 2; // slight down
    return 1; // down
  }
  \<close>
\<close>

definition computeSinceLastTrendArrowNumber :: "int \<Rightarrow> int" where
  "computeSinceLastTrendArrowNumber diff =
     (if diff = 0 then 3
      else if diff > 0 \<and> diff \<le> 5 then 4
      else if diff > 5 then 5
      else if diff < 0 \<and> diff \<ge> -5 then 2
      else 1)"

subsection \<open>Conversion to mmol/L\<close>

text \<open>
  \<^verbatim>\<open>const mmolVal = Math.round((latest.ValueInMgPerDl / 18) * 10) / 10;\<close>

  \<^verbatim>\<open>Math.round\<close> rounds to the nearest integer and resolves a tie towards plus
  infinity, which is \<^term>\<open>round\<close> of HOL: \<open>round x = \<lfloor>x + 1/2\<rfloor>\<close>.
\<close>

definition toMmol :: "int \<Rightarrow> rat" where
  "toMmol valueInMgPerDl = of_int (round ((of_int valueInMgPerDl / 18) * 10 :: rat)) / 10"



section \<open>Adaptive polling scheduler\<close>





section \<open>Durable stores\<close>

text \<open>
  A store file is modelled by what reading and parsing it does: the file does not exist,
  \<^verbatim>\<open>readFileSync\<close> throws, \<^verbatim>\<open>JSON.parse\<close> throws on its text, or \<^verbatim>\<open>JSON.parse\<close>
  returns a document. Writing a value leaves a file whose text parses back to that value.
\<close>

datatype 'a storeFile = NoFile | ReadFails | Unparseable | Document 'a

text \<open>
  \<^verbatim>\<open>
  function readMeasurementsFile() {
    if (!fs.existsSync(MEASUREMENTS_FILE)) { return []; }
    try {
      const raw = fs.readFileSync(MEASUREMENTS_FILE, 'utf8');
      const arr = JSON.parse(raw);
      if (Array.isArray(arr)) { return arr; }
      return [];
    } catch (err) { console.warn(...); return []; }
  }
  function writeMeasurementsFile(arr) {
    fs.writeFileSync(MEASUREMENTS_FILE, JSON.stringify(arr, null, 2), 'utf8');
  }
  \<close>
  The document of the measurements file is \<open>Some arr\<close> when the parsed value is the array
  \<open>arr\<close> and \<open>None\<close> when it is any other JSON value.
\<close>

definition readMeasurementsFile :: "'e list option storeFile \<Rightarrow> 'e list" where
  "readMeasurementsFile f =
     (case f of
        NoFile \<Rightarrow> []
      | ReadFails \<Rightarrow> []
      | Unparseable \<Rightarrow> []
      | Document arr \<Rightarrow> (case arr of Some xs \<Rightarrow> xs | None \<Rightarrow> []))"

definition writeMeasurementsFile :: "'e list \<Rightarrow> 'e list option storeFile" where
  "writeMeasurementsFile arr = Document (Some arr)"

section \<open>Measurement store manager\<close>

text \<open>
  A \<^verbatim>\<open>Date\<close> is its time value in milliseconds, or \<open>None\<close> for an invalid date. An entry
  of the log is modelled by what the code reads of it: the date \<^verbatim>\<open>new Date(m.Timestamp)\<close>
  and the numbers \<^verbatim>\<open>m.ValueInMgPerDl\<close> and \<^verbatim>\<open>m.TrendArrow\<close>.
\<close>

type_synonym date = "int option"

record measurement =
  Timestamp :: date
  ValueInMgPerDl :: int
  TrendArrow :: int

text \<open>
  The upstream \<^verbatim>\<open>glucoseMeasurement\<close> object \<^verbatim>\<open>latest\<close>: its \<open>Timestamp\<close> is
  the date that \<^verbatim>\<open>parseLibreTimestamp\<close> (in part 0: \<^verbatim>\<open>new Date\<close>) makes of the upstream
  string, its \<open>MeasurementColor\<close> may be absent.
\<close>

record glucoseMeasurement = measurement +
  MeasurementColor :: "int option"

text \<open>
  \<^verbatim>\<open>toLocaleDateString()\<close> depends on the locale and time zone of the process; it is a
  parameter \<open>fmt\<close> from time values to calendar days. The result \<open>None\<close> stands for
  the string \<^verbatim>\<open>"Invalid Date"\<close>.
\<close>

definition toLocaleDateString :: "(int \<Rightarrow> 'd) \<Rightarrow> date \<Rightarrow> 'd option" where
  "toLocaleDateString fmt d = (case d of None \<Rightarrow> None | Some t \<Rightarrow> Some (fmt t))"

text \<open>
  \<^verbatim>\<open>
  function purgeOldMeasurements(arr) {
    const now = new Date();
    const todayStr = now.toLocaleDateString(); // e.g. "1/29/2025"
    return arr.filter((m) => {
      const d = new Date(m.Timestamp);
      return d.toLocaleDateString() === todayStr;
    });
  }
  \<close>
\<close>

definition purgeOldMeasurements ::
  "(int \<Rightarrow> 'd) \<Rightarrow> int \<Rightarrow> ('a measurement_scheme) list \<Rightarrow> ('a measurement_scheme) list" where
  "purgeOldMeasurements fmt now arr =
     (let todayStr = toLocaleDateString fmt (Some now)
      in filter (\<lambda>m. let d = Timestamp m in toLocaleDateString fmt d = todayStr) arr)"

subsection \<open>Glyphs and colour names\<close>

text \<open>
  The five arrow emoji and the question mark that \<^verbatim>\<open>arrowToEmoji\<close> returns are named
  rather than spelled: down, down-right, right, up-right, up.
\<close>

datatype glyph = ArrowDown | ArrowDownRight | ArrowRight | ArrowUpRight | ArrowUp | QuestionMark

definition arrowToEmoji :: "int \<Rightarrow> glyph" where
  "arrowToEmoji num =
     (if num = 1 then ArrowDown
      else if num = 2 then ArrowDownRight
      else if num = 3 then ArrowRight
      else if num = 4 then ArrowUpRight
      else if num = 5 then ArrowUp
      else QuestionMark)"

definition measurementColorName :: "int \<Rightarrow> string" where
  "measurementColorName num =
     (if num = 1 then ''green''
      else if num = 2 then ''yellow''
      else if num = 3 then ''orange''
      else if num = 4 then ''red''
      else ''unknown'')"

subsection \<open>The since-last trend\<close>

text \<open>
  \<^verbatim>\<open>
  let sinceLastTrendEmoji = 'N/A';
  if (measurementsArr.length > 0) {
    const prev = measurementsArr[measurementsArr.length - 1];
    const prevDate = new Date(prev.Timestamp);
    const diffMinutes = (parsedDate - prevDate) / 1000 / 60;
    if (diffMinutes <= 24) {
      const diffVal = latest.ValueInMgPerDl - prev.ValueInMgPerDl;
      const arrowNum = computeSinceLastTrendArrowNumber(diffVal);
      sinceLastTrendEmoji = arrowToEmoji(arrowNum);
    }
  }
  \<close>
  \<open>sinceLastArrowNum\<close> is \<open>Some arrowNum\<close> when the call of
  \<^verbatim>\<open>computeSinceLastTrendArrowNumber\<close> is reached and \<open>None\<close> when it is not. The
  difference of two dates is \<^verbatim>\<open>NaN\<close> (here \<open>None\<close>) when one of them is invalid, and
  \<^verbatim>\<open>NaN <= 24\<close> is false. Part 0 has \<^verbatim>\<open>new Date(latest.Timestamp)\<close> in place of
  \<^verbatim>\<open>parsedDate\<close>.
\<close>

datatype sinceLast = NA | Emoji glyph

definition dateDiffMinutes :: "date \<Rightarrow> date \<Rightarrow> rat option" where
  "dateDiffMinutes a b =
     (case a of None \<Rightarrow> None
      | Some x \<Rightarrow> (case b of None \<Rightarrow> None | Some y \<Rightarrow> Some (of_int (x - y) / 1000 / 60)))"

definition sinceLastArrowNum ::
  "('a measurement_scheme) list \<Rightarrow> date \<Rightarrow> int \<Rightarrow> int option" where
  "sinceLastArrowNum measurementsArr parsedDate latestValue =
     (if length measurementsArr > 0 then
        (let prev = last measurementsArr;
             prevDate = Timestamp prev;
             diffMinutes = dateDiffMinutes parsedDate prevDate
         in case diffMinutes of
              None \<Rightarrow> None
            | Some dm \<Rightarrow>
                if dm \<le> 24 then
                  (let diffVal = latestValue - ValueInMgPerDl prev;
                       arrowNum = computeSinceLastTrendArrowNumber diffVal
                   in Some arrowNum)
                else None)
      else None)"

definition sinceLastTrendEmoji :: "int option \<Rightarrow> sinceLast" where
  "sinceLastTrendEmoji arrow = (case arrow of None \<Rightarrow> NA | Some arrowNum \<Rightarrow> Emoji (arrowToEmoji arrowNum))"

subsection \<open>Storing and publishing a reading\<close>

text \<open>
  The published views \<^verbatim>\<open>memoryData.measurementMgdl\<close> and
  \<^verbatim>\<open>memoryData.measurementMmol\<close>; a field that a version of the server does not
  publish is \<open>None\<close>.
\<close>

record 'v view =
  view_Timestamp :: date
  view_Value :: 'v
  view_TrendArrow :: int
  view_TrendArrowEmoji :: glyph
  view_SinceLastTrendArrow :: "sinceLast option"
  view_MeasurementColor :: "int option"
  view_MeasurementColorName :: "string option"

record storeState =
  measurementsFile :: "measurement list option storeFile"
  measurementMgdl :: "int view option"
  measurementMmol :: "rat view option"

text \<open>
  The second half of \<^verbatim>\<open>fetchAndStoreMeasurement\<close> in \<^verbatim>\<open>main_server.js\<close>, from the
  parsed upstream timestamp to the return (the assignments to
  \<^verbatim>\<open>memoryData.patientInfo\<close> and \<^verbatim>\<open>memoryData.sensorInfo\<close> in between, which read
  the connection only, are left out):
  \<^verbatim>\<open>
  const parsedDate = parseLibreTimestamp(rawTs);
  const isoStamp = parsedDate.toISOString();
  let measurementsArr = readMeasurementsFile();
  measurementsArr = purgeOldMeasurements(measurementsArr);
  ... since-last trend ...
  measurementsArr.push({
    Timestamp: isoStamp,
    ValueInMgPerDl: latest.ValueInMgPerDl,
    TrendArrow: latest.TrendArrow
  });
  writeMeasurementsFile(measurementsArr);
  const colorNumber = latest.MeasurementColor || 0;
  const colorName   = measurementColorName(colorNumber);
  memoryData.measurementMgdl = { Timestamp: isoStamp, ValueInMgPerDl: latest.ValueInMgPerDl,
    TrendArrow: latest.TrendArrow, TrendArrowEmoji: arrowToEmoji(latest.TrendArrow),
    SinceLastTrendArrow: sinceLastTrendEmoji, MeasurementColor: colorNumber,
    MeasurementColorName: colorName };
  const mmolVal = Math.round((latest.ValueInMgPerDl / 18) * 10) / 10;
  memoryData.measurementMmol = { Timestamp: isoStamp, ValueInMmolPerL: mmolVal, ... };
  return isoStamp;
  \<close>
  \<^verbatim>\<open>toISOString\<close> throws a \<^verbatim>\<open>RangeError\<close> on an invalid date. The ISO stamp is
  modelled by the time value it denotes. \<open>now\<close> is the clock of the call.
\<close>

definition fetchAndStoreMeasurement_store ::
  "(int \<Rightarrow> 'd) \<Rightarrow> int \<Rightarrow> glucoseMeasurement \<Rightarrow> storeState \<Rightarrow> (error + int) \<times> storeState" where
  "fetchAndStoreMeasurement_store fmt now latest st =
     (case Timestamp latest of
        None \<Rightarrow> (Inl RangeError, st)
      | Some parsedDate \<Rightarrow>
          (let isoStamp = parsedDate;
               measurementsArr = readMeasurementsFile (measurementsFile st);
               measurementsArr = purgeOldMeasurements fmt now measurementsArr;
               sinceLast = sinceLastTrendEmoji
                 (sinceLastArrowNum measurementsArr (Some parsedDate) (ValueInMgPerDl latest));
               measurementsArr = measurementsArr @
                 [\<lparr>Timestamp = Some isoStamp,
                   ValueInMgPerDl = ValueInMgPerDl latest,
                   TrendArrow = TrendArrow latest\<rparr>];
               colorNumber = (case MeasurementColor latest of
                                None \<Rightarrow> 0
                              | Some c \<Rightarrow> if c = 0 then 0 else c);
               colorName = measurementColorName colorNumber
           in (Inr isoStamp,
               st\<lparr>measurementsFile := writeMeasurementsFile measurementsArr,
                  measurementMgdl := Some
                    \<lparr>view_Timestamp = Some isoStamp,
                     view_Value = ValueInMgPerDl latest,
                     view_TrendArrow = TrendArrow latest,
                     view_TrendArrowEmoji = arrowToEmoji (TrendArrow latest),
                     view_SinceLastTrendArrow = Some sinceLast,
                     view_MeasurementColor = Some colorNumber,
                     view_MeasurementColorName = Some colorName\<rparr>,
                  measurementMmol := Some
                    \<lparr>view_Timestamp = Some isoStamp,
                     view_Value = toMmol (ValueInMgPerDl latest),
                     view_TrendArrow = TrendArrow latest,
                     view_TrendArrowEmoji = arrowToEmoji (TrendArrow latest),
                     view_SinceLastTrendArrow = Some sinceLast,
                     view_MeasurementColor = Some colorNumber,
                     view_MeasurementColorName = Some colorName\<rparr>\<rparr>)))"

text \<open>
  Part 0 stores and publishes the upstream timestamp as it came and compares
  \<^verbatim>\<open>new Date(latest.Timestamp)\<close> with the previous entry; it has no colour fields and
  returns nothing:
  \<^verbatim>\<open>
  let measurementsArr = readMeasurementsFile();
  measurementsArr = purgeOldMeasurements(measurementsArr);
  ... since-last trend ...
  measurementsArr.push({ Timestamp: latest.Timestamp, ValueInMgPerDl: latest.ValueInMgPerDl,
    TrendArrow: latest.TrendArrow });
  writeMeasurementsFile(measurementsArr);
  memoryData.measurementMgdl = { Timestamp: latest.Timestamp, ..., SinceLastTrendArrow: sinceLastTrendEmoji };
  memoryData.measurementMmol = { Timestamp: latest.Timestamp, ..., SinceLastTrendArrow: sinceLastTrendEmoji };
  \<close>
\<close>

definition fetchAndStoreMeasurement_store_p0 ::
  "(int \<Rightarrow> 'd) \<Rightarrow> int \<Rightarrow> glucoseMeasurement \<Rightarrow> storeState \<Rightarrow> (error + unit) \<times> storeState" where
  "fetchAndStoreMeasurement_store_p0 fmt now latest st =
     (let measurementsArr = readMeasurementsFile (measurementsFile st);
          measurementsArr = purgeOldMeasurements fmt now measurementsArr;
          sinceLast = sinceLastTrendEmoji
            (sinceLastArrowNum measurementsArr (Timestamp latest) (ValueInMgPerDl latest));
          measurementsArr = measurementsArr @
            [\<lparr>Timestamp = Timestamp latest,
              ValueInMgPerDl = ValueInMgPerDl latest,
              TrendArrow = TrendArrow latest\<rparr>]
      in (Inr (),
          st\<lparr>measurementsFile := writeMeasurementsFile measurementsArr,
             measurementMgdl := Some
               \<lparr>view_Timestamp = Timestamp latest,
                view_Value = ValueInMgPerDl latest,
                view_TrendArrow = TrendArrow latest,
                view_TrendArrowEmoji = arrowToEmoji (TrendArrow latest),
                view_SinceLastTrendArrow = Some sinceLast,
                view_MeasurementColor = None,
                view_MeasurementColorName = None\<rparr>,
             measurementMmol := Some
               \<lparr>view_Timestamp = Timestamp latest,
                view_Value = toMmol (ValueInMgPerDl latest),
                view_TrendArrow = TrendArrow latest,
                view_TrendArrowEmoji = arrowToEmoji (TrendArrow latest),
                view_SinceLastTrendArrow = Some sinceLast,
                view_MeasurementColor = None,
                view_MeasurementColorName = None\<rparr>\<rparr>))"

text \<open>
  Part 1 parses and stores the timestamp as \<^verbatim>\<open>main_server.js\<close> does and computes no
  since-last trend and no colour:
  \<^verbatim>\<open>
  const parsedDate = parseLibreTimestamp(rawTs);
  const isoStamp = parsedDate.toISOString();
  let measurementsArr = readMeasurementsFile();
  measurementsArr = purgeOldMeasurements(measurementsArr);
  measurementsArr.push({ Timestamp: isoStamp, ValueInMgPerDl: latest.ValueInMgPerDl,
    TrendArrow: latest.TrendArrow });
  writeMeasurementsFile(measurementsArr);
  memoryData.measurementMgdl = { Timestamp: isoStamp, ValueInMgPerDl: latest.ValueInMgPerDl,
    TrendArrow: latest.TrendArrow, TrendArrowEmoji: arrowToEmoji(latest.TrendArrow) };
  const mmolVal = Math.round((latest.ValueInMgPerDl / 18) * 10) / 10;
  memoryData.measurementMmol = { Timestamp: isoStamp, ValueInMmolPerL: mmolVal, ... };
  return isoStamp;
  \<close>
\<close>

definition fetchAndStoreMeasurement_store_p1 ::
  "(int \<Rightarrow> 'd) \<Rightarrow> int \<Rightarrow> glucoseMeasurement \<Rightarrow> storeState \<Rightarrow> (error + int) \<times> storeState" where
  "fetchAndStoreMeasurement_store_p1 fmt now latest st =
     (case Timestamp latest of
        None \<Rightarrow> (Inl RangeError, st)
      | Some parsedDate \<Rightarrow>
          (let isoStamp = parsedDate;
               measurementsArr = readMeasurementsFile (measurementsFile st);
               measurementsArr = purgeOldMeasurements fmt now measurementsArr;
               measurementsArr = measurementsArr @
                 [\<lparr>Timestamp = Some isoStamp,
                   ValueInMgPerDl = ValueInMgPerDl latest,
                   TrendArrow = TrendArrow latest\<rparr>]
           in (Inr isoStamp,
               st\<lparr>measurementsFile := writeMeasurementsFile measurementsArr,
                  measurementMgdl := Some
                    \<lparr>view_Timestamp = Some isoStamp,
                     view_Value = ValueInMgPerDl latest,
                     view_TrendArrow = TrendArrow latest,
                     view_TrendArrowEmoji = arrowToEmoji (TrendArrow latest),
                     view_SinceLastTrendArrow = None,
                     view_MeasurementColor = None,
                     view_MeasurementColorName = None\<rparr>,
                  measurementMmol := Some
                    \<lparr>view_Timestamp = Some isoStamp,
                     view_Value = toMmol (ValueInMgPerDl latest),
                     view_TrendArrow = TrendArrow latest,
                     view_TrendArrowEmoji = arrowToEmoji (TrendArrow latest),
                     view_SinceLastTrendArrow = None,
                     view_MeasurementColor = None,
                     view_MeasurementColorName = None\<rparr>\<rparr>)))"

text \<open>
  The calendar day of a process whose local time is UTC, as a day number; used for
  concrete runs.
\<close>

definition utcDay :: "int \<Rightarrow> int" where
  "utcDay t = t div 86400000"

section \<open>Upstream client\<close>

text \<open>
  The three versions of the server differ in a few places of the code below; a value of
  this type says which file is run.
\<close>

datatype version = MainServer | Part0 | Part1

text \<open>
  Addresses and requests are kept as the template they are built from and the value put
  into it, not as rendered strings:
  \<^item> the base address is \<^verbatim>\<open>'https://api.libreview.io'\<close> or
    \<^verbatim>\<open>`https://api-${region}.libreview.io`\<close>;
  \<^item> the path is \<^verbatim>\<open>'/llu/auth/login'\<close>, \<^verbatim>\<open>`/auth/continue/${stepType}`\<close>,
    \<^verbatim>\<open>'/llu/connections'\<close> or \<^verbatim>\<open>`/llu/connections/${patientId}/graph`\<close>;
  \<^item> the body is absent (GET), \<^verbatim>\<open>{}\<close> or \<^verbatim>\<open>{ email, password }\<close>;
  \<^item> the header \<^verbatim>\<open>Authorization\<close> is \<open>Some t\<close> for \<^verbatim>\<open>`Bearer ${t}`\<close>.
  An answer of the upstream service is the parsed body \<^verbatim>\<open>res.data\<close>, or a failure
  (axios rejects: no answer, or a status outside 2xx).
\<close>

datatype baseURL = ApiLibreview | ApiRegion jsval
datatype path = AuthLogin | AuthContinue jsval | LluConnections | LluGraph jsval
datatype payload = NoBody | EmptyBody | Credentials string string
datatype httpMethod = GET | POST
datatype reply = Fails | Replies jsval

record request =
  req_method :: httpMethod
  req_base :: baseURL
  req_path :: path
  req_body :: payload
  req_Authorization :: "jsval option"
  req_AccountId :: "jsval option"
  req_patientid :: "jsval option"

text \<open>
  \<^verbatim>\<open>memoryData.patientInfo\<close> and \<^verbatim>\<open>memoryData.sensorInfo\<close> as part 1 publishes
  them; \<^verbatim>\<open>activationDateStr\<close>, the locale rendering of \<^verbatim>\<open>activationUnix\<close>, is left
  out.
\<close>

record patientInfo =
  pi_firstName :: jsval
  pi_lastName :: jsval
  pi_patientId :: jsval

record sensorInfo =
  si_sn :: jsval
  si_activationUnix :: jsval
  si_ptName :: string

text \<open>
  The state that the login flow and the first half of a fetch cycle read and change: the
  module variable \<^verbatim>\<open>baseURL\<close> (with \<^verbatim>\<open>apiClient.defaults.baseURL\<close>, always set
  together), the three default headers of \<^verbatim>\<open>apiClient\<close>, the file \<^verbatim>\<open>cache.json\<close>
  and the published profile. \<open>baseUpdates\<close> lists the addresses that
  \<^verbatim>\<open>updateBaseURL\<close> has logged, \<open>sent\<close> the requests made so far, in order.
  \<open>upstream\<close> holds the answers that the service will give to the next requests; when
  it is used up a request fails.
\<close>

record world =
  baseURL :: baseURL
  hdrAuthorization :: "jsval option"
  hdrAccountId :: "jsval option"
  hdrPatientid :: "jsval option"
  baseUpdates :: "baseURL list"
  sent :: "request list"
  upstream :: "reply list"
  cacheFile :: "object storeFile"
  memPatientInfo :: "patientInfo option"
  memSensorInfo :: "sensorInfo option"

text \<open>
  A request carries the current base address and default headers; a request-level
  \<^verbatim>\<open>Authorization\<close> header replaces the default one.
\<close>

definition buildRequest ::
  "httpMethod \<Rightarrow> path \<Rightarrow> payload \<Rightarrow> jsval option \<Rightarrow> world \<Rightarrow> request" where
  "buildRequest m p b auth w =
     \<lparr>req_method = m, req_base = baseURL w, req_path = p, req_body = b,
      req_Authorization = (case auth of None \<Rightarrow> hdrAuthorization w | Some t \<Rightarrow> Some t),
      req_AccountId = hdrAccountId w,
      req_patientid = hdrPatientid w\<rparr>"

definition http ::
  "httpMethod \<Rightarrow> path \<Rightarrow> payload \<Rightarrow> jsval option \<Rightarrow> world \<Rightarrow> (error + jsval) \<times> world" where
  "http m p b auth w =
     (let w' = w\<lparr>sent := sent w @ [buildRequest m p b auth w]\<rparr>
      in case upstream w of
           [] \<Rightarrow> (Inl NetworkError, w')
         | r # rs \<Rightarrow>
             (case r of
                Fails \<Rightarrow> (Inl NetworkError, w'\<lparr>upstream := rs\<rparr>)
              | Replies d \<Rightarrow> (Inr d, w'\<lparr>upstream := rs\<rparr>)))"

text \<open>
  \<^verbatim>\<open>main_server.js\<close> and part 0:
  \<^verbatim>\<open>
  function updateBaseURL(region) {
    baseURL = `https://api-${region}.libreview.io`;
    apiClient.defaults.baseURL = baseURL;
    console.log('[INFO] Updated baseURL =>', baseURL);
  }
  \<close>
  Part 1:
  \<^verbatim>\<open>
  function updateBaseURL(region) {
    baseURL = 'https://api.libreview.io';
  //  baseURL = `https://api-${region}.libreview.io`;
    apiClient.defaults.baseURL = baseURL;
    console.log('[INFO] Updated baseURL =>', baseURL);
  }
  \<close>
\<close>

definition updateBaseURL :: "version \<Rightarrow> jsval \<Rightarrow> world \<Rightarrow> world" where
  "updateBaseURL ver region w =
     (let url = (case ver of Part1 \<Rightarrow> ApiLibreview | _ \<Rightarrow> ApiRegion region)
      in w\<lparr>baseURL := url, baseUpdates := baseUpdates w @ [url]\<rparr>)"

text \<open>
  \<^verbatim>\<open>
  async function postLogin(email, password) {
    const body = { email, password };
    const res = await apiClient.post('/llu/auth/login', body);
    return res.data;
  }
  async function doAuthContinue(prevResponse) {
    const stepType = prevResponse.data.step?.type;
    const token = prevResponse.data.authTicket?.token;
    if (!stepType || !token) {
      throw new Error('Missing step type or token for status=4');
    }
    const headers = { Authorization: `Bearer ${token}` };
    const res = await apiClient.post(`/auth/continue/${stepType}`, {}, { headers });
    return res.data;
  }
  \<close>
\<close>

definition postLogin :: "string \<Rightarrow> string \<Rightarrow> world \<Rightarrow> (error + jsval) \<times> world" where
  "postLogin email password w = http POST AuthLogin (Credentials email password) None w"

definition doAuthContinue :: "jsval \<Rightarrow> world \<Rightarrow> (error + jsval) \<times> world" where
  "doAuthContinue prevResponse w =
     (case member prevResponse ''data'' of
        Inl e \<Rightarrow> (Inl e, w)
      | Inr d \<Rightarrow>
          (case member d ''step'' of
             Inl e \<Rightarrow> (Inl e, w)
           | Inr step \<Rightarrow>
               (let stepType = optMember step ''type'';
                    token = optMember (jsGet d ''authTicket'') ''token''
                in if \<not> truthy stepType \<or> \<not> truthy token
                   then (Inl (Error ''Missing step type or token for status=4''), w)
                   else http POST (AuthContinue stepType) EmptyBody (Some token) w)))"

text \<open>
  Every answered request uses up one answer of \<open>upstream\<close>: the measure of the two loops
  of the login flow.
\<close>

lemma http_shorter:
  "http m p b auth w = (Inr r, w') \<Longrightarrow> length (upstream w') < length (upstream w)"
  by (auto simp add: http_def Let_def split: list.splits reply.splits)

lemma updateBaseURL_upstream [simp]: "upstream (updateBaseURL ver region w) = upstream w"
  by (simp add: updateBaseURL_def Let_def)

lemma doAuthContinue_shorter:
  "doAuthContinue r w = (Inr r', w') \<Longrightarrow> length (upstream w') < length (upstream w)"
  by (auto simp add: doAuthContinue_def Let_def split: sum.splits if_splits dest: http_shorter)

text \<open>
  \<^verbatim>\<open>
  while (respData?.data?.redirect) {
    const region = respData.data.region;
    if (!region) {
      throw new Error('redirect=true but no region specified');
    }
    updateBaseURL(region);
    respData = await postLogin(email, password);
  }
  \<close>
  Inside the loop \<^verbatim>\<open>respData.data\<close> is an object (it has a truthy \<^verbatim>\<open>redirect\<close>), so
  reading its \<^verbatim>\<open>region\<close> cannot throw.
\<close>

function redirectLoop ::
  "version \<Rightarrow> string \<Rightarrow> string \<Rightarrow> jsval \<Rightarrow> world \<Rightarrow> (error + jsval) \<times> world" where
  "redirectLoop ver email password respData w =
     (if truthy (optMember (optMember respData ''data'') ''redirect'') then
        (let region = jsGet (jsGet respData ''data'') ''region''
         in if \<not> truthy region
            then (Inl (Error ''redirect=true but no region specified''), w)
            else (case postLogin email password (updateBaseURL ver region w) of
                    (Inl e, w') \<Rightarrow> (Inl e, w')
                  | (Inr respData', w') \<Rightarrow> redirectLoop ver email password respData' w'))
      else (Inr respData, w))"
  by pat_completeness auto
termination
proof (relation "measure (\<lambda>(ver, email, password, respData, w). length (upstream w))")
  show "wf (measure (\<lambda>(ver, email, password, respData, w). length (upstream w)))" by simp
next
  fix ver email password respData w region x e w' respData'
  assume "(e, w') = postLogin email password (updateBaseURL ver region w)" "e = Inr respData'"
  then have "http POST AuthLogin (Credentials email password) None (updateBaseURL ver region w) = (Inr respData', w')"
    by (simp add: postLogin_def)
  from http_shorter [OF this]
  show "((ver, email, password, respData', w'), (ver, email, password, respData, w))
        \<in> measure (\<lambda>(ver, email, password, respData, w). length (upstream w))"
    by simp
qed

text \<open>
  \<^verbatim>\<open>
  while (respData?.status === 4) {
    respData = await doAuthContinue(respData);
  }
  \<close>
\<close>

function continueLoop :: "jsval \<Rightarrow> world \<Rightarrow> (error + jsval) \<times> world" where
  "continueLoop respData w =
     (if optMember respData ''status'' = JNum 4 then
        (case doAuthContinue respData w of
           (Inl e, w') \<Rightarrow> (Inl e, w')
         | (Inr respData', w') \<Rightarrow> continueLoop respData' w')
      else (Inr respData, w))"
  by pat_completeness auto
termination
proof (relation "measure (\<lambda>(respData, w). length (upstream w))")
  show "wf (measure (\<lambda>(respData, w). length (upstream w)))" by simp
next
  fix respData w e w' respData'
  assume "(e, w') = doAuthContinue respData w" "e = Inr respData'"
  then have "doAuthContinue respData w = (Inr respData', w')" by simp
  from doAuthContinue_shorter [OF this]
  show "((respData', w'), (respData, w)) \<in> measure (\<lambda>(respData, w). length (upstream w))"
    by simp
qed

text \<open>
  \<^verbatim>\<open>
  async function doLoginFlow(email, password) {
    let respData = await postLogin(email, password);
    ... the two loops ...
    if (respData?.status !== 0) {
      throw new Error(`Login flow did not reach status=0 (got ${respData?.status}).`);
    }
    const token = respData.data.authTicket.token;
    const userId = respData.data.user.id;
    const accountIdHash = sha256Hex(userId);
    return { token, userId, accountIdHash };
  }
  \<close>
  The digest \<^verbatim>\<open>crypto.createHash('sha256').update(str, 'utf8').digest('hex')\<close> is the
  parameter \<open>sha\<close>; \<^verbatim>\<open>update\<close> throws a \<^verbatim>\<open>TypeError\<close> when its argument is not a
  string.
\<close>

record session =
  sess_token :: jsval
  sess_userId :: jsval
  sess_accountIdHash :: string

definition sha256Hex :: "(string \<Rightarrow> string) \<Rightarrow> jsval \<Rightarrow> error + string" where
  "sha256Hex sha v = (case v of JStr str \<Rightarrow> Inr (sha str) | _ \<Rightarrow> Inl TypeError)"

definition doLoginFlow ::
  "version \<Rightarrow> (string \<Rightarrow> string) \<Rightarrow> string \<Rightarrow> string \<Rightarrow> world \<Rightarrow> (error + session) \<times> world" where
  "doLoginFlow ver sha email password w =
     (case postLogin email password w of
        (Inl e, w1) \<Rightarrow> (Inl e, w1)
      | (Inr respData, w1) \<Rightarrow>
     (case redirectLoop ver email password respData w1 of
        (Inl e, w2) \<Rightarrow> (Inl e, w2)
      | (Inr respData, w2) \<Rightarrow>
     (case continueLoop respData w2 of
        (Inl e, w3) \<Rightarrow> (Inl e, w3)
      | (Inr respData, w3) \<Rightarrow>
          if optMember respData ''status'' \<noteq> JNum 0
          then (Inl (ErrorWith ''Login flow did not reach status=0 (got '' (optMember respData ''status'')), w3)
          else
            (case member (jsGet respData ''data'') ''authTicket'' of
               Inl e \<Rightarrow> (Inl e, w3)
             | Inr authTicket \<Rightarrow>
            (case member authTicket ''token'' of
               Inl e \<Rightarrow> (Inl e, w3)
             | Inr token \<Rightarrow>
            (case member (jsGet (jsGet respData ''data'') ''user'') ''id'' of
               Inl e \<Rightarrow> (Inl e, w3)
             | Inr userId \<Rightarrow>
            (case sha256Hex sha userId of
               Inl e \<Rightarrow> (Inl e, w3)
             | Inr accountIdHash \<Rightarrow>
                 (Inr \<lparr>sess_token = token, sess_userId = userId, sess_accountIdHash = accountIdHash\<rparr>, w3))))))))"

section \<open>Session cache\<close>

text \<open>
  \<^verbatim>\<open>
  function readCache() {
    if (!fs.existsSync(CACHE_FILE)) return {};
    try {
      const raw = fs.readFileSync(CACHE_FILE, 'utf8');
      return JSON.parse(raw);
    } catch (err) { console.warn(...); return {}; }
  }
  function writeCache(obj) {
    fs.writeFileSync(CACHE_FILE, JSON.stringify(obj, null, 2), 'utf8');
  }
  \<close>
  A document of \<^verbatim>\<open>cache.json\<close> is a JSON object, as every document that \<^verbatim>\<open>writeCache\<close>
  leaves is; a cache file that parses to another JSON value is outside the model.
  \<^verbatim>\<open>JSON.stringify\<close> leaves out the properties whose value is \<^verbatim>\<open>undefined\<close>.
\<close>

definition readCache :: "object storeFile \<Rightarrow> object" where
  "readCache f =
     (case f of
        NoFile \<Rightarrow> []
      | ReadFails \<Rightarrow> []
      | Unparseable \<Rightarrow> []
      | Document obj \<Rightarrow> obj)"

definition writeCache :: "object \<Rightarrow> object storeFile" where
  "writeCache obj = Document (filter (\<lambda>kv. getProp obj (fst kv) \<noteq> JUndefined) obj)"

section \<open>Acquiring the latest reading\<close>

text \<open>
  The first half of \<^verbatim>\<open>fetchAndStoreMeasurement\<close>, up to the reading
  \<^verbatim>\<open>latest\<close> of the graph response, is modelled in the pieces that follow. The
  answers typed at the two prompts are the parameters \<open>email\<close> and \<open>password\<close>.
  \<^verbatim>\<open>
  const cacheObj = readCache();
  if (!cacheObj.token || !cacheObj.userId || !cacheObj.accountIdHash) {
    const email = await askQuestion('LibreView Email: ');
    const password = await askQuestion('LibreView Password: ');
    const { token, userId, accountIdHash } = await doLoginFlow(email, password);
    cacheObj.token = token;
    cacheObj.userId = userId;
    cacheObj.accountIdHash = accountIdHash;
    writeCache(cacheObj);
  }
  \<close>
  Part 0 also sets \<^verbatim>\<open>cacheObj.email = email\<close> before it writes the cache.
\<close>

definition fetchAndStoreMeasurement_login ::
  "version \<Rightarrow> (string \<Rightarrow> string) \<Rightarrow> string \<Rightarrow> string \<Rightarrow> world \<Rightarrow> (error + object) \<times> world" where
  "fetchAndStoreMeasurement_login ver sha email password w =
     (let cacheObj = readCache (cacheFile w)
      in if \<not> truthy (getProp cacheObj ''token'') \<or> \<not> truthy (getProp cacheObj ''userId'')
            \<or> \<not> truthy (getProp cacheObj ''accountIdHash'')
         then
           (case doLoginFlow ver sha email password w of
              (Inl e, w') \<Rightarrow> (Inl e, w')
            | (Inr s, w') \<Rightarrow>
                (let cacheObj = setProp cacheObj ''token'' (sess_token s);
                     cacheObj = setProp cacheObj ''userId'' (sess_userId s);
                     cacheObj = setProp cacheObj ''accountIdHash'' (JStr (sess_accountIdHash s));
                     cacheObj = (if ver = Part0 then setProp cacheObj ''email'' (JStr email) else cacheObj)
                 in (Inr cacheObj, w'\<lparr>cacheFile := writeCache cacheObj\<rparr>)))
         else (Inr cacheObj, w))"

text \<open>
  \<^verbatim>\<open>
  const connectionsResp = await apiClient.get('/llu/connections');
  if (connectionsResp.data.status !== 0) {
    throw new Error(`Fetching /llu/connections => status=${connectionsResp.data.status}`);
  }
  const connections = connectionsResp.data.data || [];
  if (!connections.length) { return null; }
  const { patientId, firstName, lastName, sensor } = connections[0];
  \<close>
  \<open>firstConnection\<close> is \<open>None\<close> when \<^verbatim>\<open>!connections.length\<close> holds and
  \<^verbatim>\<open>connections[0]\<close> otherwise; destructuring \<^verbatim>\<open>undefined\<close> or \<^verbatim>\<open>null\<close> throws a
  \<^verbatim>\<open>TypeError\<close>.
\<close>

fun firstConnection :: "jsval \<Rightarrow> jsval option" where
  "firstConnection (JArr xs) = (case xs of [] \<Rightarrow> None | x # _ \<Rightarrow> Some x)"
| "firstConnection (JStr s) = (case s of [] \<Rightarrow> None | c # _ \<Rightarrow> Some (JStr [c]))"
| "firstConnection (JObj obj) =
     (if truthy (getProp obj ''length'') then Some (getProp obj ''0'') else None)"
| "firstConnection v = None"

text \<open>
  \<^verbatim>\<open>
  const cgmResp = await apiClient.get(`/llu/connections/${patientId}/graph`);
  if (cgmResp.data.status !== 0) {
    throw new Error(`CGM data => status=${cgmResp.data.status}`);
  }
  const cgmData = cgmResp.data.data;
  const latest = cgmData?.connection?.glucoseMeasurement;
  if (!latest) { return null; }
  \<close>
  The result of the first half of a cycle is an exception, \<^verbatim>\<open>null\<close> (here \<open>None\<close>),
  or the values that the second half goes on with.
\<close>

record acquired =
  acq_patientId :: jsval
  acq_firstName :: jsval
  acq_lastName :: jsval
  acq_sensor :: jsval
  acq_latest :: jsval

definition fetchLatest :: "acquired \<Rightarrow> world \<Rightarrow> (error + acquired option) \<times> world" where
  "fetchLatest a w =
     (case http GET (LluGraph (acq_patientId a)) NoBody None w of
        (Inl e, w') \<Rightarrow> (Inl e, w')
      | (Inr cgmResp, w') \<Rightarrow>
          (case member cgmResp ''status'' of
             Inl e \<Rightarrow> (Inl e, w')
           | Inr status \<Rightarrow>
               if status \<noteq> JNum 0 then (Inl (ErrorWith ''CGM data => status='' status), w')
               else
                 (let cgmData = jsGet cgmResp ''data'';
                      latest = optMember (optMember cgmData ''connection'') ''glucoseMeasurement''
                  in if \<not> truthy latest then (Inr None, w')
                     else (Inr (Some (a\<lparr>acq_latest := latest\<rparr>)), w'))))"

definition getConnection :: "world \<Rightarrow> (error + jsval option) \<times> world" where
  "getConnection w =
     (case http GET LluConnections NoBody None w of
        (Inl e, w') \<Rightarrow> (Inl e, w')
      | (Inr connectionsResp, w') \<Rightarrow>
          (case member connectionsResp ''status'' of
             Inl e \<Rightarrow> (Inl e, w')
           | Inr status \<Rightarrow>
               if status \<noteq> JNum 0
               then (Inl (ErrorWith ''Fetching /llu/connections => status='' status), w')
               else
                 (let d = jsGet connectionsResp ''data'';
                      connections = (if truthy d then d else JArr [])
                  in case firstConnection connections of
                       None \<Rightarrow> (Inr None, w')
                     | Some c \<Rightarrow> if nullish c then (Inl TypeError, w') else (Inr (Some c), w'))))"

text \<open>
  \<^verbatim>\<open>main_server.js\<close>: the session, the three default headers
  \<^verbatim>\<open>
  apiClient.defaults.headers.common['Authorization'] = `Bearer ${cacheObj.token}`;
  apiClient.defaults.headers.common['Account-Id'] = cacheObj.accountIdHash;
  apiClient.defaults.headers.common['patientid'] = cacheObj.userId;
  \<close>
  then the connections and the graph request, on every cycle.
\<close>

definition fetchAndStoreMeasurement_acquire ::
  "(string \<Rightarrow> string) \<Rightarrow> string \<Rightarrow> string \<Rightarrow> world \<Rightarrow> (error + acquired option) \<times> world" where
  "fetchAndStoreMeasurement_acquire sha email password w =
     (case fetchAndStoreMeasurement_login MainServer sha email password w of
        (Inl e, w1) \<Rightarrow> (Inl e, w1)
      | (Inr cacheObj, w1) \<Rightarrow>
          (let w2 = w1\<lparr>hdrAuthorization := Some (getProp cacheObj ''token''),
                       hdrAccountId := Some (getProp cacheObj ''accountIdHash''),
                       hdrPatientid := Some (getProp cacheObj ''userId'')\<rparr>
           in case getConnection w2 of
                (Inl e, w3) \<Rightarrow> (Inl e, w3)
              | (Inr None, w3) \<Rightarrow> (Inr None, w3)
              | (Inr (Some c), w3) \<Rightarrow>
                  fetchLatest
                    \<lparr>acq_patientId = jsGet c ''patientId'',
                     acq_firstName = jsGet c ''firstName'',
                     acq_lastName = jsGet c ''lastName'',
                     acq_sensor = jsGet c ''sensor'',
                     acq_latest = JUndefined\<rparr> w3))"

text \<open>
  Part 1 publishes the profile from the cache object:
  \<^verbatim>\<open>
  memoryData.patientInfo = { firstName: cacheObj.firstName, lastName: cacheObj.lastName,
    patientId: cacheObj.patientId };
  if (cacheObj.sensor) {
    const deviceName =
      cacheObj.sensor.pt === 4 ? 'Freestyle Libre 3' :
      cacheObj.sensor.pt === 1 ? 'Freestyle Libre 2' :
      cacheObj.sensor.pt === 0 ? 'Freestyle Libre 1' : 'Unknown';
    memoryData.sensorInfo = { sn: cacheObj.sensor.sn, activationUnix: cacheObj.sensor.a,
      activationDateStr: sensorDate.toLocaleString(), ptName: deviceName };
  } else {
    memoryData.sensorInfo = null;
  }
  \<close>
\<close>

definition sensorInfoOf :: "jsval \<Rightarrow> sensorInfo option" where
  "sensorInfoOf sensor =
     (if truthy sensor then
        (let deviceName =
               (if jsGet sensor ''pt'' = JNum 4 then ''Freestyle Libre 3''
                else if jsGet sensor ''pt'' = JNum 1 then ''Freestyle Libre 2''
                else if jsGet sensor ''pt'' = JNum 0 then ''Freestyle Libre 1''
                else ''Unknown'')
         in Some \<lparr>si_sn = jsGet sensor ''sn'',
                  si_activationUnix = jsGet sensor ''a'',
                  si_ptName = deviceName\<rparr>)
      else None)"

definition publishProfile :: "object \<Rightarrow> world \<Rightarrow> world" where
  "publishProfile cacheObj w =
     w\<lparr>memPatientInfo := Some
          \<lparr>pi_firstName = getProp cacheObj ''firstName'',
           pi_lastName = getProp cacheObj ''lastName'',
           pi_patientId = getProp cacheObj ''patientId''\<rparr>,
        memSensorInfo := sensorInfoOf (getProp cacheObj ''sensor'')\<rparr>"

text \<open>
  Part 1 asks for the connections only when the cache has no patient id:
  \<^verbatim>\<open>
  if (!cacheObj.patientId) {
    const connectionsResp = await apiClient.get('/llu/connections');
    ... status test, empty list, as above ...
    const { patientId, firstName, lastName, sensor } = connections[0];
    cacheObj.patientId = patientId;
    cacheObj.firstName = firstName;
    cacheObj.lastName = lastName;
    cacheObj.sensor = sensor; // Cache the full sensor object
    writeCache(cacheObj);
  }
  \<close>
\<close>

definition resolveSubject_p1 :: "object \<Rightarrow> world \<Rightarrow> (error + object option) \<times> world" where
  "resolveSubject_p1 cacheObj w =
     (if \<not> truthy (getProp cacheObj ''patientId'') then
        (case getConnection w of
           (Inl e, w') \<Rightarrow> (Inl e, w')
         | (Inr None, w') \<Rightarrow> (Inr None, w')
         | (Inr (Some c), w') \<Rightarrow>
             (let cacheObj = setProp cacheObj ''patientId'' (jsGet c ''patientId'');
                  cacheObj = setProp cacheObj ''firstName'' (jsGet c ''firstName'');
                  cacheObj = setProp cacheObj ''lastName'' (jsGet c ''lastName'');
                  cacheObj = setProp cacheObj ''sensor'' (jsGet c ''sensor'')
              in (Inr (Some cacheObj), w'\<lparr>cacheFile := writeCache cacheObj\<rparr>)))
      else (Inr (Some cacheObj), w))"

text \<open>
  Part 1: the session, the two default headers \<^verbatim>\<open>Authorization\<close> and
  \<^verbatim>\<open>Account-Id\<close>, the subject from the cache or from the connections, the published
  profile, and the graph request for \<^verbatim>\<open>cacheObj.patientId\<close>.
\<close>

definition fetchAndStoreMeasurement_acquire_p1 ::
  "(string \<Rightarrow> string) \<Rightarrow> string \<Rightarrow> string \<Rightarrow> world \<Rightarrow> (error + acquired option) \<times> world" where
  "fetchAndStoreMeasurement_acquire_p1 sha email password w =
     (case fetchAndStoreMeasurement_login Part1 sha email password w of
        (Inl e, w1) \<Rightarrow> (Inl e, w1)
      | (Inr cacheObj, w1) \<Rightarrow>
          (let w2 = w1\<lparr>hdrAuthorization := Some (getProp cacheObj ''token''),
                       hdrAccountId := Some (getProp cacheObj ''accountIdHash'')\<rparr>
           in case resolveSubject_p1 cacheObj w2 of
                (Inl e, w3) \<Rightarrow> (Inl e, w3)
              | (Inr None, w3) \<Rightarrow> (Inr None, w3)
              | (Inr (Some cacheObj), w3) \<Rightarrow>
                  fetchLatest
                    \<lparr>acq_patientId = getProp cacheObj ''patientId'',
                     acq_firstName = getProp cacheObj ''firstName'',
                     acq_lastName = getProp cacheObj ''lastName'',
                     acq_sensor = getProp cacheObj ''sensor'',
                     acq_latest = JUndefined\<rparr> (publishProfile cacheObj w3)))"

section \<open>Shapes of upstream responses\<close>

text \<open>
  Predicates on response bodies and the requests that the theorems speak of: a body with
  status 4, a step type and a token; the continuation request that such a body leads to;
  the login request; a body with a truthy redirect flag (and a region); a body with
  status 0, an auth ticket and a user id; a connections body with status 0 whose first
  connection is \<open>conn\<close>; a cache object with the three session fields; and the state of
  a process that has just started.
\<close>

definition needsContinuation :: "jsval \<Rightarrow> bool" where
  "needsContinuation r \<longleftrightarrow>
     optMember r ''status'' = JNum 4
     \<and> truthy (optMember (jsGet (jsGet r ''data'') ''step'') ''type'')
     \<and> truthy (optMember (jsGet (jsGet r ''data'') ''authTicket'') ''token'')"

definition continueRequest :: "world \<Rightarrow> jsval \<Rightarrow> request" where
  "continueRequest w r =
     buildRequest POST (AuthContinue (optMember (jsGet (jsGet r ''data'') ''step'') ''type'')) EmptyBody
       (Some (optMember (jsGet (jsGet r ''data'') ''authTicket'') ''token'')) w"

definition loginRequest :: "world \<Rightarrow> string \<Rightarrow> string \<Rightarrow> request" where
  "loginRequest w email password = buildRequest POST AuthLogin (Credentials email password) None w"

definition redirects :: "jsval \<Rightarrow> bool" where
  "redirects r \<longleftrightarrow> truthy (optMember (optMember r ''data'') ''redirect'')"

definition redirectsTo :: "jsval \<Rightarrow> jsval \<Rightarrow> bool" where
  "redirectsTo r region \<longleftrightarrow>
     redirects r \<and> jsGet (jsGet r ''data'') ''region'' = region \<and> truthy region"

definition loginOk :: "jsval \<Rightarrow> jsval \<Rightarrow> string \<Rightarrow> bool" where
  "loginOk r tk uid \<longleftrightarrow>
     optMember r ''status'' = JNum 0
     \<and> \<not> nullish (jsGet (jsGet r ''data'') ''authTicket'')
     \<and> jsGet (jsGet (jsGet r ''data'') ''authTicket'') ''token'' = tk
     \<and> jsGet (jsGet (jsGet r ''data'') ''user'') ''id'' = JStr uid"

definition listsConnection :: "jsval \<Rightarrow> jsval \<Rightarrow> bool" where
  "listsConnection body conn \<longleftrightarrow>
     jsGet body ''status'' = JNum 0
     \<and> firstConnection (if truthy (jsGet body ''data'') then jsGet body ''data'' else JArr []) = Some conn
     \<and> \<not> nullish conn"

definition initialWorld :: "reply list \<Rightarrow> object storeFile \<Rightarrow> world" where
  "initialWorld replies cache =
     \<lparr>baseURL = ApiLibreview,
      hdrAuthorization = None, hdrAccountId = None, hdrPatientid = None,
      baseUpdates = [], sent = [], upstream = replies, cacheFile = cache,
      memPatientInfo = None, memSensorInfo = None\<rparr>"

definition hasSession :: "object \<Rightarrow> bool" where
  "hasSession cacheObj \<longleftrightarrow>
     truthy (getProp cacheObj ''token'') \<and> truthy (getProp cacheObj ''userId'')
     \<and> truthy (getProp cacheObj ''accountIdHash'')"

section \<open>Sample upstream responses\<close>

text \<open>Bodies, a session cache and a connection for concrete runs.\<close>

definition redirectResponse :: "string \<Rightarrow> jsval" where
  "redirectResponse region =
     JObj [(''status'', JNum 0),
           (''data'', JObj [(''redirect'', JBool True), (''region'', JStr region)])]"

definition okResponse :: "string \<Rightarrow> string \<Rightarrow> jsval" where
  "okResponse tk uid =
     JObj [(''status'', JNum 0),
           (''data'', JObj [(''authTicket'', JObj [(''token'', JStr tk)]),
                            (''user'', JObj [(''id'', JStr uid)])])]"

definition connectionsResponse :: "jsval list \<Rightarrow> jsval" where
  "connectionsResponse conns = JObj [(''status'', JNum 0), (''data'', JArr conns)]"

definition graphResponse :: "jsval \<Rightarrow> jsval" where
  "graphResponse latest =
     JObj [(''status'', JNum 0),
           (''data'', JObj [(''connection'', JObj [(''glucoseMeasurement'', latest)])])]"

definition sampleSession :: object where
  "sampleSession =
     [(''token'', JStr ''bearer''), (''userId'', JStr ''u-1''), (''accountIdHash'', JStr ''1-u'')]"

definition sampleConnection :: jsval where
  "sampleConnection =
     JObj [(''patientId'', JStr ''p-1''), (''firstName'', JStr ''Ada''), (''lastName'', JStr ''Byron''),
           (''sensor'', JObj [(''sn'', JStr ''0M0063KNUJ0''), (''a'', JNum 1727000000), (''pt'', JNum 4)])]"

definition sampleLatest :: jsval where
  "sampleLatest =
     JObj [(''Timestamp'', JStr ''10/4/2024 12:15:00 AM''), (''ValueInMgPerDl'', JNum 103),
           (''TrendArrow'', JNum 3)]"

section \<open>Theorems\<close>


text \<open>
  Claim C5. For every integer difference the classification lies in 1..5; it is 3 exactly
  at 0, 4 on 1..5, 5 above 5, 2 on -5..-1 and 1 below -5, with the four threshold
  values 5, 6, -5 and -6 classified 4, 5, 2 and 1.
\<close>

theorem classifyDelta_table:
  "computeSinceLastTrendArrowNumber d \<in> {1..5}
   \<and> computeSinceLastTrendArrowNumber 0 = 3
   \<and> (computeSinceLastTrendArrowNumber d = 3 \<longleftrightarrow> d = 0)
   \<and> (0 < d \<and> d \<le> 5 \<longrightarrow> computeSinceLastTrendArrowNumber d = 4)
   \<and> (d > 5 \<longrightarrow> computeSinceLastTrendArrowNumber d = 5)
   \<and> (- 5 \<le> d \<and> d < 0 \<longrightarrow> computeSinceLastTrendArrowNumber d = 2)
   \<and> (d < - 5 \<longrightarrow> computeSinceLastTrendArrowNumber d = 1)
   \<and> computeSinceLastTrendArrowNumber 5 = 4
   \<and> computeSinceLastTrendArrowNumber 6 = 5
   \<and> computeSinceLastTrendArrowNumber (- 5) = 2
   \<and> computeSinceLastTrendArrowNumber (- 6) = 1"
  by (simp add: computeSinceLastTrendArrowNumber_def)

theorem classifyDelta_table_witness:
  "(0::int) < 4 \<and> (4::int) \<le> 5 \<and> computeSinceLastTrendArrowNumber 4 = 4
   \<and> computeSinceLastTrendArrowNumber 4 \<in> {1..5}"
  using classifyDelta_table [of 4] by simp


lemma purge_today:
  "m \<in> set (purgeOldMeasurements fmt now arr) \<Longrightarrow>
     toLocaleDateString fmt (Timestamp m) = Some (fmt now)"
  by (simp add: purgeOldMeasurements_def toLocaleDateString_def)

lemma toLocaleDateString_Some: "toLocaleDateString fmt (Some t) = Some (fmt t)"
  by (simp add: toLocaleDateString_def)

lemma purge_valid:
  "m \<in> set (purgeOldMeasurements fmt now arr) \<Longrightarrow> \<exists>t. Timestamp m = Some t \<and> fmt t = fmt now"
  by (auto simp add: purgeOldMeasurements_def toLocaleDateString_def split: option.splits)

lemma minutes_le_24: "((of_int d :: rat) / 1000 / 60 \<le> 24) = (d \<le> 1440000)"
proof -
  have "((of_int d :: rat) / 1000 / 60 \<le> 24) = ((of_int d :: rat) \<le> of_int 1440000)"
    by (simp add: field_simps)
  also have "\<dots> = (d \<le> 1440000)" by (simp only: of_int_le_iff)
  finally show ?thesis .
qed

lemma sinceLastArrowNum_Some_iff:
  "sinceLastArrowNum arr d v = Some a \<longleftrightarrow>
     arr \<noteq> [] \<and> (\<exists>T tp. d = Some T \<and> Timestamp (last arr) = Some tp \<and> T - tp \<le> 1440000)
     \<and> a = computeSinceLastTrendArrowNumber (v - ValueInMgPerDl (last arr))"
  by (auto simp add: sinceLastArrowNum_def dateDiffMinutes_def Let_def minutes_le_24
      split: option.splits)

lemma sinceLastArrowNum_None_iff:
  "sinceLastArrowNum arr d v = None \<longleftrightarrow>
     arr = [] \<or> d = None \<or> Timestamp (last arr) = None
     \<or> (\<exists>T tp. d = Some T \<and> Timestamp (last arr) = Some tp \<and> T - tp > 1440000)"
  by (auto simp add: sinceLastArrowNum_def dateDiffMinutes_def Let_def minutes_le_24
      split: option.splits)

lemma store_log:
  "Timestamp latest = Some T \<Longrightarrow>
   readMeasurementsFile (measurementsFile (snd (fetchAndStoreMeasurement_store fmt now latest st))) =
     purgeOldMeasurements fmt now (readMeasurementsFile (measurementsFile st)) @
       [\<lparr>Timestamp = Some T, ValueInMgPerDl = ValueInMgPerDl latest, TrendArrow = TrendArrow latest\<rparr>]"
  by (simp add: fetchAndStoreMeasurement_store_def Let_def readMeasurementsFile_def writeMeasurementsFile_def)

lemma store_returns:
  "Timestamp latest = Some T \<Longrightarrow> fst (fetchAndStoreMeasurement_store fmt now latest st) = Inr T"
  by (simp add: fetchAndStoreMeasurement_store_def Let_def)

lemma store_sinceLast:
  "Timestamp latest = Some T \<Longrightarrow>
   map_option view_SinceLastTrendArrow (measurementMgdl (snd (fetchAndStoreMeasurement_store fmt now latest st))) =
     Some (Some (sinceLastTrendEmoji (sinceLastArrowNum
        (purgeOldMeasurements fmt now (readMeasurementsFile (measurementsFile st))) (Some T) (ValueInMgPerDl latest))))
   \<and> map_option view_SinceLastTrendArrow (measurementMmol (snd (fetchAndStoreMeasurement_store fmt now latest st))) =
     Some (Some (sinceLastTrendEmoji (sinceLastArrowNum
        (purgeOldMeasurements fmt now (readMeasurementsFile (measurementsFile st))) (Some T) (ValueInMgPerDl latest))))"
  by (simp add: fetchAndStoreMeasurement_store_def Let_def)

text \<open>
  Claim C1, as amended. When the store step of \<^verbatim>\<open>main_server.js\<close> completes, the
  persisted log is not empty, its last entry carries the timestamp of the new reading, and
  every entry before the last has the local calendar date of the clock reading \<open>now\<close>.
  The appended entry is not compared with today: the whole log has today's date when the
  new reading's own date is today's.
\<close>

theorem recordReading_dates:
  assumes "Timestamp latest = Some T"
  shows "fst (fetchAndStoreMeasurement_store fmt now latest st) = Inr T
    \<and> readMeasurementsFile (measurementsFile (snd (fetchAndStoreMeasurement_store fmt now latest st))) \<noteq> []
    \<and> Timestamp (last (readMeasurementsFile (measurementsFile (snd (fetchAndStoreMeasurement_store fmt now latest st))))) = Some T
    \<and> (\<forall>e \<in> set (butlast (readMeasurementsFile (measurementsFile (snd (fetchAndStoreMeasurement_store fmt now latest st))))).
          toLocaleDateString fmt (Timestamp e) = toLocaleDateString fmt (Some now))
    \<and> (fmt T = fmt now \<longrightarrow>
        (\<forall>e \<in> set (readMeasurementsFile (measurementsFile (snd (fetchAndStoreMeasurement_store fmt now latest st)))).
          toLocaleDateString fmt (Timestamp e) = toLocaleDateString fmt (Some now)))"
  using assms
  by (auto simp add: store_log store_returns purge_today toLocaleDateString_Some)

theorem recordReading_dates_witness:
  "Timestamp \<lparr>Timestamp = Some 1728000900000, ValueInMgPerDl = 103, TrendArrow = 3, MeasurementColor = None\<rparr>
      = Some 1728000900000
   \<and> utcDay 1728000900000 = utcDay 1728000910000
   \<and> readMeasurementsFile (measurementsFile (snd (fetchAndStoreMeasurement_store utcDay 1728000910000
        \<lparr>Timestamp = Some 1728000900000, ValueInMgPerDl = 103, TrendArrow = 3, MeasurementColor = None\<rparr>
        \<lparr>measurementsFile = Document (Some
            [\<lparr>Timestamp = Some 1727990000000, ValueInMgPerDl = 90, TrendArrow = 3\<rparr>,
             \<lparr>Timestamp = Some 1728000600000, ValueInMgPerDl = 100, TrendArrow = 3\<rparr>]),
          measurementMgdl = None, measurementMmol = None\<rparr>)))
      = [\<lparr>Timestamp = Some 1728000600000, ValueInMgPerDl = 100, TrendArrow = 3\<rparr>,
         \<lparr>Timestamp = Some 1728000900000, ValueInMgPerDl = 103, TrendArrow = 3\<rparr>]
   \<and> list_all (\<lambda>e. toLocaleDateString utcDay (Timestamp e) = toLocaleDateString utcDay (Some 1728000910000))
        (readMeasurementsFile (measurementsFile (snd (fetchAndStoreMeasurement_store utcDay 1728000910000
        \<lparr>Timestamp = Some 1728000900000, ValueInMgPerDl = 103, TrendArrow = 3, MeasurementColor = None\<rparr>
        \<lparr>measurementsFile = Document (Some
            [\<lparr>Timestamp = Some 1727990000000, ValueInMgPerDl = 90, TrendArrow = 3\<rparr>,
             \<lparr>Timestamp = Some 1728000600000, ValueInMgPerDl = 100, TrendArrow = 3\<rparr>]),
          measurementMgdl = None, measurementMmol = None\<rparr>))))"
  using recordReading_dates [where latest = "\<lparr>Timestamp = Some 1728000900000, ValueInMgPerDl = 103, TrendArrow = 3, MeasurementColor = None\<rparr>"
      and T = 1728000900000 and fmt = utcDay and now = 1728000910000
      and st = "\<lparr>measurementsFile = Document (Some
            [\<lparr>Timestamp = Some 1727990000000, ValueInMgPerDl = 90, TrendArrow = 3\<rparr>,
             \<lparr>Timestamp = Some 1728000600000, ValueInMgPerDl = 100, TrendArrow = 3\<rparr>]),
          measurementMgdl = None, measurementMmol = None\<rparr>"]
  by (simp add: fetchAndStoreMeasurement_store_def Let_def readMeasurementsFile_def
      writeMeasurementsFile_def purgeOldMeasurements_def toLocaleDateString_def utcDay_def)

text \<open>
  Claim C1 as stated fails for the appended entry. A process on UTC fetches, ten seconds
  after midnight of day 20000, a reading taken thirty seconds before midnight: the
  persisted log is that one entry, dated day 19999.
\<close>

theorem recordReading_dates_counterexample:
  "readMeasurementsFile (measurementsFile (snd (fetchAndStoreMeasurement_store utcDay 1728000010000
       \<lparr>Timestamp = Some 1727999970000, ValueInMgPerDl = 100, TrendArrow = 3, MeasurementColor = None\<rparr>
       \<lparr>measurementsFile = NoFile, measurementMgdl = None, measurementMmol = None\<rparr>)))
     = [\<lparr>Timestamp = Some 1727999970000, ValueInMgPerDl = 100, TrendArrow = 3\<rparr>]
   \<and> toLocaleDateString utcDay (Some 1727999970000) = Some 19999
   \<and> toLocaleDateString utcDay (Some 1728000010000) = Some 20000
   \<and> \<not> (\<forall>e \<in> set (readMeasurementsFile (measurementsFile (snd (fetchAndStoreMeasurement_store utcDay 1728000010000
       \<lparr>Timestamp = Some 1727999970000, ValueInMgPerDl = 100, TrendArrow = 3, MeasurementColor = None\<rparr>
       \<lparr>measurementsFile = NoFile, measurementMgdl = None, measurementMmol = None\<rparr>)))).
         toLocaleDateString utcDay (Timestamp e) = toLocaleDateString utcDay (Some 1728000010000))"
  by (simp add: fetchAndStoreMeasurement_store_def Let_def readMeasurementsFile_def
      writeMeasurementsFile_def purgeOldMeasurements_def toLocaleDateString_def utcDay_def)

lemma store_p0_sinceLast:
  "map_option view_SinceLastTrendArrow (measurementMgdl (snd (fetchAndStoreMeasurement_store_p0 fmt now latest st))) =
     Some (Some (sinceLastTrendEmoji (sinceLastArrowNum
        (purgeOldMeasurements fmt now (readMeasurementsFile (measurementsFile st))) (Timestamp latest) (ValueInMgPerDl latest))))
   \<and> map_option view_SinceLastTrendArrow (measurementMmol (snd (fetchAndStoreMeasurement_store_p0 fmt now latest st))) =
     Some (Some (sinceLastTrendEmoji (sinceLastArrowNum
        (purgeOldMeasurements fmt now (readMeasurementsFile (measurementsFile st))) (Timestamp latest) (ValueInMgPerDl latest))))"
  by (simp add: fetchAndStoreMeasurement_store_p0_def Let_def)

lemma sinceLastTrendEmoji_NA_iff: "sinceLastTrendEmoji a = NA \<longleftrightarrow> a = None"
  by (simp add: sinceLastTrendEmoji_def split: option.splits)

lemma purge_last_valid:
  assumes "purgeOldMeasurements fmt now arr \<noteq> []"
  shows "\<exists>tp. Timestamp (last (purgeOldMeasurements fmt now arr)) = Some tp \<and> fmt tp = fmt now"
  using purge_valid [OF last_in_set [OF assms]] .

text \<open>
  Claim C7. With \<open>kept\<close> the log after the purge, the delta classification is performed
  exactly when \<open>kept\<close> is not empty and the new reading is at most 24 minutes
  (1440000 ms) later than the last kept entry. When \<open>kept\<close> is empty or the gap is
  larger, no classification is performed and both published views carry \<open>NA\<close>; when a
  classification \<open>a\<close> is performed it is that of the difference of the two values and
  both views carry its glyph. This holds for \<^verbatim>\<open>main_server.js\<close> and for part 0.
\<close>

theorem sinceLast_freshness:
  fixes fmt :: "int \<Rightarrow> 'd" and now :: int and st :: storeState
    and latest :: glucoseMeasurement and T :: int
  defines "kept \<equiv> purgeOldMeasurements fmt now (readMeasurementsFile (measurementsFile st))"
  defines "st' \<equiv> snd (fetchAndStoreMeasurement_store fmt now latest st)"
  defines "st0 \<equiv> snd (fetchAndStoreMeasurement_store_p0 fmt now latest st)"
  defines "arrow \<equiv> sinceLastArrowNum kept (Some T) (ValueInMgPerDl latest)"
  assumes "Timestamp latest = Some T"
  shows "(arrow \<noteq> None \<longleftrightarrow>
            kept \<noteq> [] \<and> (\<exists>tp. Timestamp (last kept) = Some tp \<and> T - tp \<le> 24 * 60 * 1000))
    \<and> (kept = [] \<or> (\<exists>tp. Timestamp (last kept) = Some tp \<and> T - tp > 24 * 60 * 1000) \<longrightarrow>
          arrow = None
          \<and> map_option view_SinceLastTrendArrow (measurementMgdl st') = Some (Some NA)
          \<and> map_option view_SinceLastTrendArrow (measurementMmol st') = Some (Some NA)
          \<and> map_option view_SinceLastTrendArrow (measurementMgdl st0) = Some (Some NA)
          \<and> map_option view_SinceLastTrendArrow (measurementMmol st0) = Some (Some NA))
    \<and> (\<forall>a. arrow = Some a \<longrightarrow>
          a = computeSinceLastTrendArrowNumber (ValueInMgPerDl latest - ValueInMgPerDl (last kept))
          \<and> map_option view_SinceLastTrendArrow (measurementMgdl st') = Some (Some (Emoji (arrowToEmoji a)))
          \<and> map_option view_SinceLastTrendArrow (measurementMmol st') = Some (Some (Emoji (arrowToEmoji a)))
          \<and> map_option view_SinceLastTrendArrow (measurementMgdl st0) = Some (Some (Emoji (arrowToEmoji a)))
          \<and> map_option view_SinceLastTrendArrow (measurementMmol st0) = Some (Some (Emoji (arrowToEmoji a))))
    \<and> (map_option view_SinceLastTrendArrow (measurementMgdl st') = Some (Some NA) \<longleftrightarrow> arrow = None)"
proof -
  have pub: "map_option view_SinceLastTrendArrow (measurementMgdl st') = Some (Some (sinceLastTrendEmoji arrow))"
    "map_option view_SinceLastTrendArrow (measurementMmol st') = Some (Some (sinceLastTrendEmoji arrow))"
    using store_sinceLast [OF assms(5), of fmt now st] by (simp_all add: st'_def arrow_def kept_def)
  have pub0: "map_option view_SinceLastTrendArrow (measurementMgdl st0) = Some (Some (sinceLastTrendEmoji arrow))"
    "map_option view_SinceLastTrendArrow (measurementMmol st0) = Some (Some (sinceLastTrendEmoji arrow))"
    using store_p0_sinceLast [of fmt now latest st] assms(5) by (simp_all add: st0_def arrow_def kept_def)
  have c1: "arrow \<noteq> None \<longleftrightarrow>
            kept \<noteq> [] \<and> (\<exists>tp. Timestamp (last kept) = Some tp \<and> T - tp \<le> 24 * 60 * 1000)"
    using sinceLastArrowNum_None_iff [of kept "Some T" "ValueInMgPerDl latest"]
    by (auto simp add: arrow_def)
  have c2: "arrow = None" if "kept = [] \<or> (\<exists>tp. Timestamp (last kept) = Some tp \<and> T - tp > 24 * 60 * 1000)"
    using that sinceLastArrowNum_None_iff [of kept "Some T" "ValueInMgPerDl latest"]
    by (auto simp add: arrow_def)
  have c3: "a = computeSinceLastTrendArrowNumber (ValueInMgPerDl latest - ValueInMgPerDl (last kept))"
    if "arrow = Some a" for a
    using that sinceLastArrowNum_Some_iff [of kept "Some T" "ValueInMgPerDl latest" a]
    by (simp add: arrow_def)
  show ?thesis
    using c1 c2 c3 by (auto simp add: pub pub0 sinceLastTrendEmoji_def)
qed

theorem sinceLast_freshness_witness:
  "Timestamp \<lparr>Timestamp = Some 1728000900000, ValueInMgPerDl = 103, TrendArrow = 3, MeasurementColor = Some 1\<rparr>
      = Some 1728000900000
   \<and> sinceLastArrowNum
        (purgeOldMeasurements utcDay 1728000910000 (readMeasurementsFile (Document (Some
           [\<lparr>Timestamp = Some 1728000600000, ValueInMgPerDl = 100, TrendArrow = 3\<rparr>]))))
        (Some 1728000900000) 103 = Some 4
   \<and> map_option view_SinceLastTrendArrow (measurementMgdl (snd (fetchAndStoreMeasurement_store utcDay 1728000910000
        \<lparr>Timestamp = Some 1728000900000, ValueInMgPerDl = 103, TrendArrow = 3, MeasurementColor = Some 1\<rparr>
        \<lparr>measurementsFile = Document (Some [\<lparr>Timestamp = Some 1728000600000, ValueInMgPerDl = 100, TrendArrow = 3\<rparr>]),
          measurementMgdl = None, measurementMmol = None\<rparr>)))
      = Some (Some (Emoji ArrowUpRight))"
  using sinceLast_freshness [where latest = "\<lparr>Timestamp = Some 1728000900000, ValueInMgPerDl = 103, TrendArrow = 3, MeasurementColor = Some 1\<rparr>"
      and T = 1728000900000 and fmt = utcDay and now = 1728000910000
      and st = "\<lparr>measurementsFile = Document (Some [\<lparr>Timestamp = Some 1728000600000, ValueInMgPerDl = 100, TrendArrow = 3\<rparr>]),
          measurementMgdl = None, measurementMmol = None\<rparr>"]
  by (simp add: sinceLastArrowNum_def dateDiffMinutes_def purgeOldMeasurements_def
      toLocaleDateString_def utcDay_def readMeasurementsFile_def Let_def
      computeSinceLastTrendArrowNumber_def arrowToEmoji_def)

lemma store_p1_log:
  "Timestamp latest = Some T \<Longrightarrow>
   readMeasurementsFile (measurementsFile (snd (fetchAndStoreMeasurement_store_p1 fmt now latest st))) =
     purgeOldMeasurements fmt now (readMeasurementsFile (measurementsFile st)) @
       [\<lparr>Timestamp = Some T, ValueInMgPerDl = ValueInMgPerDl latest, TrendArrow = TrendArrow latest\<rparr>]"
  by (simp add: fetchAndStoreMeasurement_store_p1_def Let_def readMeasurementsFile_def writeMeasurementsFile_def)

lemma purge_append:
  "purgeOldMeasurements fmt now (xs @ ys) = purgeOldMeasurements fmt now xs @ purgeOldMeasurements fmt now ys"
  by (simp add: purgeOldMeasurements_def Let_def)

lemma purge_single_today:
  "Timestamp m = Some t \<Longrightarrow> fmt t = fmt now \<Longrightarrow> purgeOldMeasurements fmt now [m] = [m]"
  by (simp add: purgeOldMeasurements_def toLocaleDateString_def)

lemma sinceLast_same_reading:
  "arr \<noteq> [] \<Longrightarrow> Timestamp (last arr) = Some T \<Longrightarrow> ValueInMgPerDl (last arr) = v \<Longrightarrow>
     sinceLastArrowNum arr (Some T) v = Some 3"
  by (simp add: sinceLastArrowNum_Some_iff computeSinceLastTrendArrowNumber_def)

text \<open>
  Claim C10. The persisted log after the store step is the purged prior log with the new
  reading appended as its last element, one entry longer than what was kept, in
  \<^verbatim>\<open>main_server.js\<close> and in part 1 alike. Nothing is deduplicated: when the last kept
  entry has the timestamp and value of the new reading, the since-last classification is
  3 and both views publish the right arrow; and storing the same reading a second time,
  on a day that is still the reading's, leaves it in the log twice.
\<close>

theorem recordReading_appends:
  fixes fmt :: "int \<Rightarrow> 'd" and now now' :: int and st :: storeState
    and latest :: glucoseMeasurement and T :: int
  defines "kept \<equiv> purgeOldMeasurements fmt now (readMeasurementsFile (measurementsFile st))"
  defines "new \<equiv> \<lparr>Timestamp = Some T, ValueInMgPerDl = ValueInMgPerDl latest, TrendArrow = TrendArrow latest\<rparr>"
  defines "st' \<equiv> snd (fetchAndStoreMeasurement_store fmt now latest st)"
  defines "st1 \<equiv> snd (fetchAndStoreMeasurement_store_p1 fmt now latest st)"
  defines "st'' \<equiv> snd (fetchAndStoreMeasurement_store fmt now' latest st')"
  assumes "Timestamp latest = Some T"
  shows "readMeasurementsFile (measurementsFile st') = kept @ [new]
    \<and> length (readMeasurementsFile (measurementsFile st')) = length kept + 1
    \<and> last (readMeasurementsFile (measurementsFile st')) = new
    \<and> readMeasurementsFile (measurementsFile st1) = kept @ [new]
    \<and> (kept \<noteq> [] \<and> Timestamp (last kept) = Some T \<and> ValueInMgPerDl (last kept) = ValueInMgPerDl latest \<longrightarrow>
          sinceLastArrowNum kept (Some T) (ValueInMgPerDl latest) = Some 3
          \<and> map_option view_SinceLastTrendArrow (measurementMgdl st') = Some (Some (Emoji ArrowRight))
          \<and> map_option view_SinceLastTrendArrow (measurementMmol st') = Some (Some (Emoji ArrowRight)))
    \<and> (fmt T = fmt now' \<longrightarrow>
          readMeasurementsFile (measurementsFile st'') = purgeOldMeasurements fmt now' kept @ [new, new]
          \<and> map_option view_SinceLastTrendArrow (measurementMgdl st'') = Some (Some (Emoji ArrowRight)))"
proof -
  have log: "readMeasurementsFile (measurementsFile st') = kept @ [new]"
    using store_log [OF assms(6), of fmt now st] by (simp add: st'_def kept_def new_def)
  have log1: "readMeasurementsFile (measurementsFile st1) = kept @ [new]"
    using store_p1_log [OF assms(6), of fmt now st] by (simp add: st1_def kept_def new_def)
  have dup: "sinceLastArrowNum kept (Some T) (ValueInMgPerDl latest) = Some 3
          \<and> map_option view_SinceLastTrendArrow (measurementMgdl st') = Some (Some (Emoji ArrowRight))
          \<and> map_option view_SinceLastTrendArrow (measurementMmol st') = Some (Some (Emoji ArrowRight))"
    if "kept \<noteq> []" "Timestamp (last kept) = Some T" "ValueInMgPerDl (last kept) = ValueInMgPerDl latest"
  proof -
    have a: "sinceLastArrowNum kept (Some T) (ValueInMgPerDl latest) = Some 3"
      using that by (rule sinceLast_same_reading)
    show ?thesis
      using store_sinceLast [OF assms(6), of fmt now st] a
      by (simp add: st'_def kept_def sinceLastTrendEmoji_def arrowToEmoji_def)
  qed
  have twice: "readMeasurementsFile (measurementsFile st'') = purgeOldMeasurements fmt now' kept @ [new, new]
          \<and> map_option view_SinceLastTrendArrow (measurementMgdl st'') = Some (Some (Emoji ArrowRight))"
    if same: "fmt T = fmt now'"
  proof -
    have p: "purgeOldMeasurements fmt now' (readMeasurementsFile (measurementsFile st')) =
        purgeOldMeasurements fmt now' kept @ [new]"
      using same by (simp add: log purge_append purge_single_today new_def)
    have a: "sinceLastArrowNum (purgeOldMeasurements fmt now' kept @ [new]) (Some T) (ValueInMgPerDl latest) = Some 3"
      by (rule sinceLast_same_reading) (simp_all add: new_def)
    show ?thesis
      using store_log [OF assms(6), of fmt now' st'] store_sinceLast [OF assms(6), of fmt now' st'] a
      by (simp add: st''_def p new_def sinceLastTrendEmoji_def arrowToEmoji_def)
  qed
  show ?thesis
    using log log1 dup twice by simp
qed

theorem recordReading_appends_witness:
  "Timestamp \<lparr>Timestamp = Some 1728000900000, ValueInMgPerDl = 100, TrendArrow = 3, MeasurementColor = None\<rparr>
      = Some 1728000900000
   \<and> readMeasurementsFile (measurementsFile (snd (fetchAndStoreMeasurement_store utcDay 1728000910000
        \<lparr>Timestamp = Some 1728000900000, ValueInMgPerDl = 100, TrendArrow = 3, MeasurementColor = None\<rparr>
        \<lparr>measurementsFile = Document (Some
            [\<lparr>Timestamp = Some 1727990000000, ValueInMgPerDl = 90, TrendArrow = 3\<rparr>,
             \<lparr>Timestamp = Some 1728000900000, ValueInMgPerDl = 100, TrendArrow = 3\<rparr>]),
          measurementMgdl = None, measurementMmol = None\<rparr>)))
      = [\<lparr>Timestamp = Some 1728000900000, ValueInMgPerDl = 100, TrendArrow = 3\<rparr>,
         \<lparr>Timestamp = Some 1728000900000, ValueInMgPerDl = 100, TrendArrow = 3\<rparr>]
   \<and> map_option view_SinceLastTrendArrow (measurementMgdl (snd (fetchAndStoreMeasurement_store utcDay 1728000910000
        \<lparr>Timestamp = Some 1728000900000, ValueInMgPerDl = 100, TrendArrow = 3, MeasurementColor = None\<rparr>
        \<lparr>measurementsFile = Document (Some
            [\<lparr>Timestamp = Some 1727990000000, ValueInMgPerDl = 90, TrendArrow = 3\<rparr>,
             \<lparr>Timestamp = Some 1728000900000, ValueInMgPerDl = 100, TrendArrow = 3\<rparr>]),
          measurementMgdl = None, measurementMmol = None\<rparr>)))
      = Some (Some (Emoji ArrowRight))"
  using recordReading_appends [where latest = "\<lparr>Timestamp = Some 1728000900000, ValueInMgPerDl = 100, TrendArrow = 3, MeasurementColor = None\<rparr>"
      and T = 1728000900000 and fmt = utcDay and now = 1728000910000 and now' = 1728000910000
      and st = "\<lparr>measurementsFile = Document (Some
            [\<lparr>Timestamp = Some 1727990000000, ValueInMgPerDl = 90, TrendArrow = 3\<rparr>,
             \<lparr>Timestamp = Some 1728000900000, ValueInMgPerDl = 100, TrendArrow = 3\<rparr>]),
          measurementMgdl = None, measurementMmol = None\<rparr>"]
  by (simp add: purgeOldMeasurements_def toLocaleDateString_def utcDay_def readMeasurementsFile_def)



declare redirectLoop.simps [simp del]
declare continueLoop.simps [simp del]

lemma buildRequest_sent [simp]:
  "buildRequest m p b auth (w\<lparr>sent := s\<rparr>) = buildRequest m p b auth w"
  "buildRequest m p b auth (w\<lparr>upstream := u\<rparr>) = buildRequest m p b auth w"
  by (simp_all add: buildRequest_def split: option.splits)

lemma continueRequest_sent [simp]:
  "continueRequest (w\<lparr>sent := s\<rparr>) r = continueRequest w r"
  "continueRequest (w\<lparr>upstream := u\<rparr>) r = continueRequest w r"
  by (simp_all add: continueRequest_def)

lemma http_reply:
  "upstream w = Replies d # rest \<Longrightarrow>
     http m p b auth w = (Inr d, w\<lparr>sent := sent w @ [buildRequest m p b auth w], upstream := rest\<rparr>)"
  by (simp add: http_def Let_def)

lemma needsContinuation_data:
  assumes "needsContinuation r"
  shows "\<not> nullish r" "\<not> nullish (jsGet r ''data'')"
  using assms
  by (auto simp add: needsContinuation_def nullish_def optMember_def)

lemma doAuthContinue_reply:
  assumes "needsContinuation r" "upstream w = Replies r' # rest"
  shows "doAuthContinue r w = (Inr r', w\<lparr>sent := sent w @ [continueRequest w r], upstream := rest\<rparr>)"
proof -
  have d: "member r ''data'' = Inr (jsGet r ''data'')"
    using needsContinuation_data(1) [OF assms(1)] by (simp add: member_def)
  have s: "member (jsGet r ''data'') ''step'' = Inr (jsGet (jsGet r ''data'') ''step'')"
    using needsContinuation_data(2) [OF assms(1)] by (simp add: member_def)
  show ?thesis
    using assms(1) http_reply [OF assms(2)]
    by (simp add: doAuthContinue_def d s Let_def needsContinuation_def continueRequest_def)
qed

lemma continueLoop_step:
  assumes "needsContinuation r" "upstream w = Replies r' # rest"
  shows "continueLoop r w = continueLoop r' (w\<lparr>sent := sent w @ [continueRequest w r], upstream := rest\<rparr>)"
  using assms(1) doAuthContinue_reply [OF assms]
  by (subst continueLoop.simps) (simp add: needsContinuation_def)

lemma continueLoop_done:
  "optMember r ''status'' \<noteq> JNum 4 \<Longrightarrow> continueLoop r w = (Inr r, w)"
  by (subst continueLoop.simps) simp

lemma continueLoop_chain:
  assumes "needsContinuation r" "\<forall>x \<in> set rs. needsContinuation x"
    "optMember rf ''status'' \<noteq> JNum 4"
    "upstream w = map Replies (rs @ [rf]) @ rest"
  shows "continueLoop r w =
     (Inr rf, w\<lparr>sent := sent w @ map (continueRequest w) (r # rs), upstream := rest\<rparr>)"
  using assms
proof (induction rs arbitrary: r w)
  case Nil
  then show ?case
    by (simp add: continueLoop_step [where r' = rf and rest = rest] continueLoop_done)
next
  case (Cons x xs)
  let ?w1 = "w\<lparr>sent := sent w @ [continueRequest w r], upstream := map Replies (xs @ [rf]) @ rest\<rparr>"
  have step: "continueLoop r w = continueLoop x ?w1"
    using Cons.prems by (simp add: continueLoop_step [where r' = x and rest = "map Replies (xs @ [rf]) @ rest"])
  have "continueLoop x ?w1 =
     (Inr rf, ?w1\<lparr>sent := sent ?w1 @ map (continueRequest ?w1) (x # xs), upstream := rest\<rparr>)"
    using Cons.prems by (intro Cons.IH) simp_all
  then show ?case
    by (simp add: step)
qed

lemma loginRequest_sent [simp]:
  "loginRequest (w\<lparr>sent := s\<rparr>) e p = loginRequest w e p"
  "loginRequest (w\<lparr>upstream := u\<rparr>) e p = loginRequest w e p"
  by (simp_all add: loginRequest_def)

lemma postLogin_reply:
  "upstream w = Replies d # rest \<Longrightarrow>
     postLogin e p w = (Inr d, w\<lparr>sent := sent w @ [loginRequest w e p], upstream := rest\<rparr>)"
  by (simp add: postLogin_def loginRequest_def http_reply)

lemma redirectLoop_done:
  "\<not> redirects r \<Longrightarrow> redirectLoop ver e p r w = (Inr r, w)"
  by (subst redirectLoop.simps) (simp add: redirects_def)

lemma redirectLoop_step:
  assumes "redirectsTo r R" "upstream w = Replies r' # rest"
  shows "redirectLoop ver e p r w =
     redirectLoop ver e p r'
       ((updateBaseURL ver R w)\<lparr>sent := sent w @ [loginRequest (updateBaseURL ver R w) e p], upstream := rest\<rparr>)"
proof -
  have u: "upstream (updateBaseURL ver R w) = Replies r' # rest"
    using assms(2) by (simp add: updateBaseURL_def Let_def)
  have s: "sent (updateBaseURL ver R w) = sent w"
    by (simp add: updateBaseURL_def Let_def)
  show ?thesis
    using assms(1) postLogin_reply [OF u, of e p]
    by (subst redirectLoop.simps) (simp add: redirectsTo_def redirects_def Let_def s)
qed

lemma loginOk_session:
  assumes "loginOk rf tk uid"
  shows "optMember rf ''status'' = JNum 0"
    "member (jsGet rf ''data'') ''authTicket'' = Inr (jsGet (jsGet rf ''data'') ''authTicket'')"
    "member (jsGet (jsGet rf ''data'') ''authTicket'') ''token'' = Inr tk"
    "member (jsGet (jsGet rf ''data'') ''user'') ''id'' = Inr (JStr uid)"
  using assms
  by (auto simp add: loginOk_def member_def nullish_def)

lemma loginOk_not_4: "loginOk rf tk uid \<Longrightarrow> optMember rf ''status'' \<noteq> JNum 4"
  by (simp add: loginOk_def)

lemma doLoginFlow_tail:
  assumes "loginOk rf tk uid"
  shows "(if optMember rf ''status'' \<noteq> JNum 0
          then (Inl (ErrorWith ''Login flow did not reach status=0 (got '' (optMember rf ''status'')), w3)
          else
            (case member (jsGet rf ''data'') ''authTicket'' of
               Inl e \<Rightarrow> (Inl e, w3)
             | Inr authTicket \<Rightarrow>
            (case member authTicket ''token'' of
               Inl e \<Rightarrow> (Inl e, w3)
             | Inr token \<Rightarrow>
            (case member (jsGet (jsGet rf ''data'') ''user'') ''id'' of
               Inl e \<Rightarrow> (Inl e, w3)
             | Inr userId \<Rightarrow>
            (case sha256Hex sha userId of
               Inl e \<Rightarrow> (Inl e, w3)
             | Inr accountIdHash \<Rightarrow>
                 (Inr \<lparr>sess_token = token, sess_userId = userId, sess_accountIdHash = accountIdHash\<rparr>, w3))))))
       = (Inr \<lparr>sess_token = tk, sess_userId = JStr uid, sess_accountIdHash = sha uid\<rparr>, w3)"
  by (simp add: loginOk_session [OF assms] sha256Hex_def)

text \<open>
  Claim C3. Let the login response \<open>r\<close> ask for no redirect and carry status 4 with a
  step type and a token, let the answers to the continuation requests be \<open>rs\<close>, all of
  that shape, followed by \<open>rf\<close> with status 0. Then the flow posts the login, then one
  continuation request for each of \<open>r\<close> and \<open>rs\<close>, to the path of that response's
  step type and with that response's token as bearer, and returns the session of
  \<open>rf\<close>: its token, its user id and the digest of that id. Each single round of the
  loop replaces the working response by the answer to its continuation request.
\<close>

theorem continuation_flow:
  assumes "\<not> redirects r" "needsContinuation r" "\<forall>x \<in> set rs. needsContinuation x"
    "loginOk rf tk uid"
    "upstream w = Replies r # map Replies (rs @ [rf]) @ rest"
  shows "doLoginFlow ver sha email password w =
     (Inr \<lparr>sess_token = tk, sess_userId = JStr uid, sess_accountIdHash = sha uid\<rparr>,
      w\<lparr>sent := sent w @ loginRequest w email password # map (continueRequest w) (r # rs),
        upstream := rest\<rparr>)
   \<and> (\<forall>q q' v more. needsContinuation q \<and> upstream v = Replies q' # more \<longrightarrow>
         continueLoop q v =
           continueLoop q' (v\<lparr>sent := sent v @ [continueRequest v q], upstream := more\<rparr>))"
proof -
  let ?w1 = "w\<lparr>sent := sent w @ [loginRequest w email password], upstream := map Replies (rs @ [rf]) @ rest\<rparr>"
  let ?w3 = "?w1\<lparr>sent := sent ?w1 @ map (continueRequest ?w1) (r # rs), upstream := rest\<rparr>"
  have a: "postLogin email password w = (Inr r, ?w1)"
    using assms(5) by (rule postLogin_reply)
  have b: "redirectLoop ver email password r ?w1 = (Inr r, ?w1)"
    using assms(1) by (rule redirectLoop_done)
  have c: "continueLoop r ?w1 = (Inr rf, ?w3)"
    using assms(2,3) loginOk_not_4 [OF assms(4)] by (rule continueLoop_chain) simp
  have "doLoginFlow ver sha email password w =
     (Inr \<lparr>sess_token = tk, sess_userId = JStr uid, sess_accountIdHash = sha uid\<rparr>, ?w3)"
    unfolding doLoginFlow_def a b c prod.case sum.case
    by (rule doLoginFlow_tail [OF assms(4)])
  then show ?thesis
    by (simp add: continueLoop_step)
qed

lemmas js_eval =
  member_def optMember_def nullish_def getProp_def needsContinuation_def redirects_def
  redirectsTo_def loginOk_def

theorem continuation_flow_witness:
  "\<not> redirects (JObj [(''status'', JNum 4),
        (''data'', JObj [(''step'', JObj [(''type'', JStr ''tou'')]),
                         (''authTicket'', JObj [(''token'', JStr ''short-lived'')]),
                         (''user'', JObj [(''id'', JStr ''login-user'')])])])
   \<and> needsContinuation (JObj [(''status'', JNum 4),
        (''data'', JObj [(''step'', JObj [(''type'', JStr ''tou'')]),
                         (''authTicket'', JObj [(''token'', JStr ''short-lived'')]),
                         (''user'', JObj [(''id'', JStr ''login-user'')])])])
   \<and> loginOk (JObj [(''status'', JNum 0),
        (''data'', JObj [(''authTicket'', JObj [(''token'', JStr ''bearer'')]),
                         (''user'', JObj [(''id'', JStr ''final-user'')])])])
        (JStr ''bearer'') ''final-user''
   \<and> fst (doLoginFlow MainServer rev ''me@example.org'' ''secret''
        (initialWorld
          [Replies (JObj [(''status'', JNum 4),
             (''data'', JObj [(''step'', JObj [(''type'', JStr ''tou'')]),
                              (''authTicket'', JObj [(''token'', JStr ''short-lived'')]),
                              (''user'', JObj [(''id'', JStr ''login-user'')])])]),
           Replies (JObj [(''status'', JNum 0),
             (''data'', JObj [(''authTicket'', JObj [(''token'', JStr ''bearer'')]),
                              (''user'', JObj [(''id'', JStr ''final-user'')])])])]
          NoFile))
      = Inr \<lparr>sess_token = JStr ''bearer'', sess_userId = JStr ''final-user'',
              sess_accountIdHash = rev ''final-user''\<rparr>
   \<and> map req_path (sent (snd (doLoginFlow MainServer rev ''me@example.org'' ''secret''
        (initialWorld
          [Replies (JObj [(''status'', JNum 4),
             (''data'', JObj [(''step'', JObj [(''type'', JStr ''tou'')]),
                              (''authTicket'', JObj [(''token'', JStr ''short-lived'')]),
                              (''user'', JObj [(''id'', JStr ''login-user'')])])]),
           Replies (JObj [(''status'', JNum 0),
             (''data'', JObj [(''authTicket'', JObj [(''token'', JStr ''bearer'')]),
                              (''user'', JObj [(''id'', JStr ''final-user'')])])])]
          NoFile))))
      = [AuthLogin, AuthContinue (JStr ''tou'')]
   \<and> map req_Authorization (sent (snd (doLoginFlow MainServer rev ''me@example.org'' ''secret''
        (initialWorld
          [Replies (JObj [(''status'', JNum 4),
             (''data'', JObj [(''step'', JObj [(''type'', JStr ''tou'')]),
                              (''authTicket'', JObj [(''token'', JStr ''short-lived'')]),
                              (''user'', JObj [(''id'', JStr ''login-user'')])])]),
           Replies (JObj [(''status'', JNum 0),
             (''data'', JObj [(''authTicket'', JObj [(''token'', JStr ''bearer'')]),
                              (''user'', JObj [(''id'', JStr ''final-user'')])])])]
          NoFile))))
      = [None, Some (JStr ''short-lived'')]"
  using continuation_flow [where ver = MainServer and sha = rev and email = "''me@example.org''"
      and password = "''secret''" and rs = "[]" and rest = "[]"
      and r = "JObj [(''status'', JNum 4),
             (''data'', JObj [(''step'', JObj [(''type'', JStr ''tou'')]),
                              (''authTicket'', JObj [(''token'', JStr ''short-lived'')]),
                              (''user'', JObj [(''id'', JStr ''login-user'')])])]"
      and rf = "JObj [(''status'', JNum 0),
             (''data'', JObj [(''authTicket'', JObj [(''token'', JStr ''bearer'')]),
                              (''user'', JObj [(''id'', JStr ''final-user'')])])]"
      and tk = "JStr ''bearer''" and uid = "''final-user''"
      and w = "initialWorld
          [Replies (JObj [(''status'', JNum 4),
             (''data'', JObj [(''step'', JObj [(''type'', JStr ''tou'')]),
                              (''authTicket'', JObj [(''token'', JStr ''short-lived'')]),
                              (''user'', JObj [(''id'', JStr ''login-user'')])])]),
           Replies (JObj [(''status'', JNum 0),
             (''data'', JObj [(''authTicket'', JObj [(''token'', JStr ''bearer'')]),
                              (''user'', JObj [(''id'', JStr ''final-user'')])])])]
          NoFile"]
  by (simp add: js_eval initialWorld_def loginRequest_def continueRequest_def buildRequest_def)

lemma updateBaseURL_region:
  "ver \<noteq> Part1 \<Longrightarrow>
     updateBaseURL ver R w = w\<lparr>baseURL := ApiRegion R, baseUpdates := baseUpdates w @ [ApiRegion R]\<rparr>"
  by (cases ver) (simp_all add: updateBaseURL_def Let_def)

lemma updateBaseURL_Part1:
  "updateBaseURL Part1 R w = w\<lparr>baseURL := ApiLibreview, baseUpdates := baseUpdates w @ [ApiLibreview]\<rparr>"
  by (simp add: updateBaseURL_def Let_def)

lemma http_world:
  "snd (http m p b a w) = w\<lparr>sent := sent w @ [buildRequest m p b a w], upstream := tl (upstream w)\<rparr>"
  by (simp add: http_def Let_def split: list.splits reply.splits)

lemma getConnection_world:
  "snd (getConnection w) = snd (http GET LluConnections NoBody None w)"
  by (simp add: getConnection_def Let_def split: prod.splits sum.splits option.splits)

lemma fetchLatest_world:
  "snd (fetchLatest a w) = snd (http GET (LluGraph (acq_patientId a)) NoBody None w)"
  by (simp add: fetchLatest_def Let_def split: prod.splits sum.splits option.splits)

lemma login_flow_redirect:
  assumes "ver \<noteq> Part1" "redirectsTo r R" "\<not> redirects rf" "loginOk rf tk uid"
    "upstream w = Replies r # Replies rf # rest"
  shows "doLoginFlow ver sha email password w =
     (Inr \<lparr>sess_token = tk, sess_userId = JStr uid, sess_accountIdHash = sha uid\<rparr>,
      w\<lparr>baseURL := ApiRegion R, baseUpdates := baseUpdates w @ [ApiRegion R],
        sent := sent w @ [loginRequest w email password,
                          loginRequest (w\<lparr>baseURL := ApiRegion R\<rparr>) email password],
        upstream := rest\<rparr>)"
proof -
  let ?w1 = "w\<lparr>sent := sent w @ [loginRequest w email password], upstream := Replies rf # rest\<rparr>"
  let ?u = "updateBaseURL ver R ?w1"
  let ?w2 = "?u\<lparr>sent := sent ?w1 @ [loginRequest ?u email password], upstream := rest\<rparr>"
  have a: "postLogin email password w = (Inr r, ?w1)"
    using assms(5) by (rule postLogin_reply)
  have "redirectLoop ver email password r ?w1 = redirectLoop ver email password rf ?w2"
    using assms(2) by (rule redirectLoop_step) simp
  also have "\<dots> = (Inr rf, ?w2)"
    using assms(3) by (rule redirectLoop_done)
  finally have b: "redirectLoop ver email password r ?w1 = (Inr rf, ?w2)" .
  have c: "continueLoop rf ?w2 = (Inr rf, ?w2)"
    using loginOk_not_4 [OF assms(4)] by (rule continueLoop_done)
  have "doLoginFlow ver sha email password w =
     (Inr \<lparr>sess_token = tk, sess_userId = JStr uid, sess_accountIdHash = sha uid\<rparr>, ?w2)"
    unfolding doLoginFlow_def a b c prod.case sum.case
    by (rule doLoginFlow_tail [OF assms(4)])
  then show ?thesis
    by (simp add: updateBaseURL_region [OF assms(1)] loginRequest_def buildRequest_def)
qed

lemma login_flow_redirect_Part1:
  assumes "redirectsTo r R" "\<not> redirects rf" "loginOk rf tk uid"
    "upstream w = Replies r # Replies rf # rest"
  shows "doLoginFlow Part1 sha email password w =
     (Inr \<lparr>sess_token = tk, sess_userId = JStr uid, sess_accountIdHash = sha uid\<rparr>,
      w\<lparr>baseURL := ApiLibreview, baseUpdates := baseUpdates w @ [ApiLibreview],
        sent := sent w @ [loginRequest w email password,
                          loginRequest (w\<lparr>baseURL := ApiLibreview\<rparr>) email password],
        upstream := rest\<rparr>)"
proof -
  let ?w1 = "w\<lparr>sent := sent w @ [loginRequest w email password], upstream := Replies rf # rest\<rparr>"
  let ?u = "updateBaseURL Part1 R ?w1"
  let ?w2 = "?u\<lparr>sent := sent ?w1 @ [loginRequest ?u email password], upstream := rest\<rparr>"
  have a: "postLogin email password w = (Inr r, ?w1)"
    using assms(4) by (rule postLogin_reply)
  have "redirectLoop Part1 email password r ?w1 = redirectLoop Part1 email password rf ?w2"
    using assms(1) by (rule redirectLoop_step) simp
  also have "\<dots> = (Inr rf, ?w2)"
    using assms(2) by (rule redirectLoop_done)
  finally have b: "redirectLoop Part1 email password r ?w1 = (Inr rf, ?w2)" .
  have c: "continueLoop rf ?w2 = (Inr rf, ?w2)"
    using loginOk_not_4 [OF assms(3)] by (rule continueLoop_done)
  have "doLoginFlow Part1 sha email password w =
     (Inr \<lparr>sess_token = tk, sess_userId = JStr uid, sess_accountIdHash = sha uid\<rparr>, ?w2)"
    unfolding doLoginFlow_def a b c prod.case sum.case
    by (rule doLoginFlow_tail [OF assms(3)])
  then show ?thesis
    by (simp add: updateBaseURL_Part1 loginRequest_def buildRequest_def)
qed

lemma getConnection_worldD:
  "getConnection w = (res, w') \<Longrightarrow>
     w' = w\<lparr>sent := sent w @ [buildRequest GET LluConnections NoBody None w], upstream := tl (upstream w)\<rparr>"
  using getConnection_world [of w] http_world [of GET LluConnections NoBody None w] by simp

lemma fetchLatest_worldD:
  "fetchLatest a w = (res, w') \<Longrightarrow>
     w' = w\<lparr>sent := sent w @ [buildRequest GET (LluGraph (acq_patientId a)) NoBody None w],
            upstream := tl (upstream w)\<rparr>"
  using fetchLatest_world [of a w] http_world [of GET "LluGraph (acq_patientId a)" NoBody None w] by simp

lemma login_cached:
  "hasSession (readCache (cacheFile w)) \<Longrightarrow>
     fetchAndStoreMeasurement_login ver sha e p w = (Inr (readCache (cacheFile w)), w)"
  by (simp add: fetchAndStoreMeasurement_login_def hasSession_def Let_def)

lemma acquire_after_login:
  assumes "fetchAndStoreMeasurement_login MainServer sha e p w = (Inr c, w1)"
  shows "baseURL (snd (fetchAndStoreMeasurement_acquire sha e p w)) = baseURL w1
    \<and> cacheFile (snd (fetchAndStoreMeasurement_acquire sha e p w)) = cacheFile w1
    \<and> (\<exists>more. sent (snd (fetchAndStoreMeasurement_acquire sha e p w)) = sent w1 @ more
          \<and> map req_path (take 1 more) = [LluConnections]
          \<and> (\<forall>q \<in> set more. req_base q = baseURL w1))"
proof -
  let ?w2 = "w1\<lparr>hdrAuthorization := Some (getProp c ''token''),
                 hdrAccountId := Some (getProp c ''accountIdHash''),
                 hdrPatientid := Some (getProp c ''userId'')\<rparr>"
  obtain res w3 where g: "getConnection ?w2 = (res, w3)"
    by (cases "getConnection ?w2")
  note w3 = getConnection_worldD [OF g]
  show ?thesis
  proof (cases res)
    case (Inl err)
    then show ?thesis
      by (simp add: fetchAndStoreMeasurement_acquire_def assms g w3 buildRequest_def)
  next
    case (Inr found)
    show ?thesis
    proof (cases found)
      case None
      then show ?thesis
        by (simp add: fetchAndStoreMeasurement_acquire_def assms g Inr w3 buildRequest_def)
    next
      case (Some conn)
      let ?a = "\<lparr>acq_patientId = jsGet conn ''patientId'',
                 acq_firstName = jsGet conn ''firstName'',
                 acq_lastName = jsGet conn ''lastName'',
                 acq_sensor = jsGet conn ''sensor'',
                 acq_latest = JUndefined\<rparr>"
      obtain res' w4 where f: "fetchLatest ?a w3 = (res', w4)"
        by (cases "fetchLatest ?a w3")
      note w4 = fetchLatest_worldD [OF f]
      have "fetchAndStoreMeasurement_acquire sha e p w = (res', w4)"
        by (simp add: fetchAndStoreMeasurement_acquire_def assms g Inr Some f)
      then show ?thesis
        by (simp add: w4 w3 buildRequest_def)
    qed
  qed
qed

lemma login_fresh:
  assumes "\<not> hasSession (readCache (cacheFile w))"
    "doLoginFlow ver sha e p w = (Inr s, w')"
  shows "\<exists>c. fetchAndStoreMeasurement_login ver sha e p w = (Inr c, w'\<lparr>cacheFile := writeCache c\<rparr>)
     \<and> getProp c ''token'' = sess_token s \<and> getProp c ''userId'' = sess_userId s
     \<and> getProp c ''accountIdHash'' = JStr (sess_accountIdHash s)"
  using assms
  by (auto simp add: fetchAndStoreMeasurement_login_def hasSession_def Let_def setProp_def
      getProp_def update_conv')

text \<open>
  The region redirect in \<^verbatim>\<open>main_server.js\<close> and part 0. A login response that
  redirects to region \<open>R\<close>, followed by a login response with status 0, yields the
  session of the second response; the base address has been set once, to the address of
  \<open>R\<close>, and the second login has gone there. Each round of the redirect loop sets the
  address of the response's region and posts the login again. The change stays: the
  requests that follow the login in the same cycle, and all requests of later cycles,
  which run on the cached session, go to the address in force.
\<close>

theorem region_redirect:
  assumes "ver \<noteq> Part1" "redirectsTo r R" "\<not> redirects rf" "loginOk rf tk uid"
    "upstream w = Replies r # Replies rf # rest"
  shows "doLoginFlow ver sha email password w =
     (Inr \<lparr>sess_token = tk, sess_userId = JStr uid, sess_accountIdHash = sha uid\<rparr>,
      w\<lparr>baseURL := ApiRegion R, baseUpdates := baseUpdates w @ [ApiRegion R],
        sent := sent w @ [loginRequest w email password,
                          loginRequest (w\<lparr>baseURL := ApiRegion R\<rparr>) email password],
        upstream := rest\<rparr>)
   \<and> (\<forall>q q' Q v more. redirectsTo q Q \<and> upstream v = Replies q' # more \<longrightarrow>
         redirectLoop ver email password q v =
           redirectLoop ver email password q'
             (v\<lparr>baseURL := ApiRegion Q, baseUpdates := baseUpdates v @ [ApiRegion Q],
               sent := sent v @ [loginRequest (v\<lparr>baseURL := ApiRegion Q\<rparr>) email password],
               upstream := more\<rparr>))
   \<and> (\<not> hasSession (readCache (cacheFile w)) \<longrightarrow>
         baseURL (snd (fetchAndStoreMeasurement_acquire sha email password w)) = ApiRegion R
         \<and> (\<exists>more. sent (snd (fetchAndStoreMeasurement_acquire sha email password w)) =
               sent w @ loginRequest w email password
                 # loginRequest (w\<lparr>baseURL := ApiRegion R\<rparr>) email password # more
             \<and> (\<forall>q \<in> set more. req_base q = ApiRegion R)))
   \<and> (\<forall>v. hasSession (readCache (cacheFile v)) \<longrightarrow>
         baseURL (snd (fetchAndStoreMeasurement_acquire sha email password v)) = baseURL v
         \<and> (\<exists>more. sent (snd (fetchAndStoreMeasurement_acquire sha email password v)) = sent v @ more
             \<and> (\<forall>q \<in> set more. req_base q = baseURL v)))"
proof -
  note flow = login_flow_redirect [OF assms, of sha email password]
  have step: "redirectLoop ver email password q v =
           redirectLoop ver email password q'
             (v\<lparr>baseURL := ApiRegion Q, baseUpdates := baseUpdates v @ [ApiRegion Q],
               sent := sent v @ [loginRequest (v\<lparr>baseURL := ApiRegion Q\<rparr>) email password],
               upstream := more\<rparr>)"
    if "redirectsTo q Q" "upstream v = Replies q' # more" for q q' Q v more
    using redirectLoop_step [OF that, of ver email password]
    by (simp add: updateBaseURL_region [OF assms(1)] loginRequest_def buildRequest_def)
  have same: "baseURL (snd (fetchAndStoreMeasurement_acquire sha email password w)) = ApiRegion R
         \<and> (\<exists>more. sent (snd (fetchAndStoreMeasurement_acquire sha email password w)) =
               sent w @ loginRequest w email password
                 # loginRequest (w\<lparr>baseURL := ApiRegion R\<rparr>) email password # more
             \<and> (\<forall>q \<in> set more. req_base q = ApiRegion R))"
    if fresh: "\<not> hasSession (readCache (cacheFile w))"
  proof -
    let ?w' = "w\<lparr>baseURL := ApiRegion R, baseUpdates := baseUpdates w @ [ApiRegion R],
        sent := sent w @ [loginRequest w email password,
                          loginRequest (w\<lparr>baseURL := ApiRegion R\<rparr>) email password],
        upstream := rest\<rparr>"
    have "doLoginFlow MainServer sha email password w =
       (Inr \<lparr>sess_token = tk, sess_userId = JStr uid, sess_accountIdHash = sha uid\<rparr>, ?w')"
      using assms(2-5) by (intro login_flow_redirect) simp_all
    from login_fresh [OF fresh this]
    obtain c where c: "fetchAndStoreMeasurement_login MainServer sha email password w =
        (Inr c, ?w'\<lparr>cacheFile := writeCache c\<rparr>)"
      by blast
    from acquire_after_login [OF c]
    show ?thesis by auto
  qed
  have later: "baseURL (snd (fetchAndStoreMeasurement_acquire sha email password v)) = baseURL v
         \<and> (\<exists>more. sent (snd (fetchAndStoreMeasurement_acquire sha email password v)) = sent v @ more
             \<and> (\<forall>q \<in> set more. req_base q = baseURL v))"
    if "hasSession (readCache (cacheFile v))" for v
    using acquire_after_login [OF login_cached [OF that, of MainServer sha email password]] by auto
  show ?thesis
    using flow step same later by blast
qed

theorem region_redirect_witness:
  "MainServer \<noteq> Part1
   \<and> redirectsTo (redirectResponse ''eu'') (JStr ''eu'')
   \<and> \<not> redirects (okResponse ''bearer'' ''u-1'')
   \<and> loginOk (okResponse ''bearer'' ''u-1'') (JStr ''bearer'') ''u-1''
   \<and> fst (doLoginFlow MainServer rev ''me@example.org'' ''secret''
        (initialWorld [Replies (redirectResponse ''eu''), Replies (okResponse ''bearer'' ''u-1'')] NoFile))
      = Inr \<lparr>sess_token = JStr ''bearer'', sess_userId = JStr ''u-1'', sess_accountIdHash = rev ''u-1''\<rparr>
   \<and> baseURL (snd (doLoginFlow MainServer rev ''me@example.org'' ''secret''
        (initialWorld [Replies (redirectResponse ''eu''), Replies (okResponse ''bearer'' ''u-1'')] NoFile)))
      = ApiRegion (JStr ''eu'')
   \<and> baseUpdates (snd (doLoginFlow MainServer rev ''me@example.org'' ''secret''
        (initialWorld [Replies (redirectResponse ''eu''), Replies (okResponse ''bearer'' ''u-1'')] NoFile)))
      = [ApiRegion (JStr ''eu'')]
   \<and> map req_base (sent (snd (doLoginFlow MainServer rev ''me@example.org'' ''secret''
        (initialWorld [Replies (redirectResponse ''eu''), Replies (okResponse ''bearer'' ''u-1'')] NoFile))))
      = [ApiLibreview, ApiRegion (JStr ''eu'')]"
  using region_redirect [where ver = MainServer and sha = rev and email = "''me@example.org''"
      and password = "''secret''" and rest = "[]" and r = "redirectResponse ''eu''" and R = "JStr ''eu''"
      and rf = "okResponse ''bearer'' ''u-1''" and tk = "JStr ''bearer''" and uid = "''u-1''"
      and w = "initialWorld [Replies (redirectResponse ''eu''), Replies (okResponse ''bearer'' ''u-1'')] NoFile"]
  by (simp add: js_eval initialWorld_def loginRequest_def buildRequest_def
      redirectResponse_def okResponse_def)

text \<open>
  Claim C4 holds in \<^verbatim>\<open>main_server.js\<close> and part 0, as shown above, and fails in
  part 1, whose \<^verbatim>\<open>updateBaseURL\<close> has the regional address commented out: after a
  redirect to region eu the base address is still the default one and the second login
  goes to the address that has just answered with the redirect.
\<close>

theorem region_redirect_part1:
  "redirectsTo (redirectResponse ''eu'') (JStr ''eu'')
   \<and> fst (doLoginFlow Part1 rev ''me@example.org'' ''secret''
        (initialWorld [Replies (redirectResponse ''eu''), Replies (okResponse ''bearer'' ''u-1'')] NoFile))
      = Inr \<lparr>sess_token = JStr ''bearer'', sess_userId = JStr ''u-1'', sess_accountIdHash = rev ''u-1''\<rparr>
   \<and> baseURL (snd (doLoginFlow Part1 rev ''me@example.org'' ''secret''
        (initialWorld [Replies (redirectResponse ''eu''), Replies (okResponse ''bearer'' ''u-1'')] NoFile)))
      = ApiLibreview
   \<and> baseURL (snd (doLoginFlow Part1 rev ''me@example.org'' ''secret''
        (initialWorld [Replies (redirectResponse ''eu''), Replies (okResponse ''bearer'' ''u-1'')] NoFile)))
      \<noteq> ApiRegion (JStr ''eu'')
   \<and> map req_base (sent (snd (doLoginFlow Part1 rev ''me@example.org'' ''secret''
        (initialWorld [Replies (redirectResponse ''eu''), Replies (okResponse ''bearer'' ''u-1'')] NoFile))))
      = [ApiLibreview, ApiLibreview]"
proof -
  have a: "redirectsTo (redirectResponse ''eu'') (JStr ''eu'')"
    by (simp add: js_eval redirectResponse_def)
  have b: "\<not> redirects (okResponse ''bearer'' ''u-1'')"
    by (simp add: js_eval okResponse_def)
  have c: "loginOk (okResponse ''bearer'' ''u-1'') (JStr ''bearer'') ''u-1''"
    by (simp add: js_eval okResponse_def)
  have d: "upstream (initialWorld [Replies (redirectResponse ''eu''), Replies (okResponse ''bearer'' ''u-1'')] NoFile)
      = Replies (redirectResponse ''eu'') # Replies (okResponse ''bearer'' ''u-1'') # []"
    by (simp add: initialWorld_def)
  note e = login_flow_redirect_Part1 [OF a b c d, of rev "''me@example.org''" "''secret''"]
  show ?thesis
    unfolding e using a by (simp add: initialWorld_def loginRequest_def buildRequest_def)
qed

lemma getProp_filter:
  "getProp (filter (\<lambda>kv. getProp obj (fst kv) \<noteq> JUndefined) obj) k = getProp obj k"
proof -
  have "map_of (filter (\<lambda>kv. getProp obj (fst kv) \<noteq> JUndefined) obj) k =
      (map_of obj |` {k. getProp obj k \<noteq> JUndefined}) k"
    by (simp add: map_of_filter [of "\<lambda>k. getProp obj k \<noteq> JUndefined" obj])
  then show ?thesis
    by (auto simp add: getProp_def restrict_map_def split: option.splits)
qed

lemma getProp_setProp:
  "getProp (setProp obj k v) k' = (if k' = k then v else getProp obj k')"
  by (simp add: getProp_def setProp_def update_conv')

lemma getProp_readCache_writeCache:
  "getProp (readCache (writeCache c)) k = getProp c k"
  by (simp add: readCache_def writeCache_def getProp_filter)

lemma getConnection_found:
  assumes "listsConnection body conn" "upstream w = Replies body # rest"
  shows "getConnection w =
     (Inr (Some conn),
      w\<lparr>sent := sent w @ [buildRequest GET LluConnections NoBody None w], upstream := rest\<rparr>)"
proof -
  have nn: "\<not> nullish body"
    using assms(1) by (auto simp add: listsConnection_def nullish_def)
  show ?thesis
    using assms(1) nn
    by (simp add: getConnection_def http_reply [OF assms(2)] member_def listsConnection_def Let_def)
qed

lemma resolveSubject_p1_cached:
  "truthy (getProp c ''patientId'') \<Longrightarrow> resolveSubject_p1 c w = (Inr (Some c), w)"
  by (simp add: resolveSubject_p1_def)

lemma acquire_p1_cached:
  assumes "hasSession (readCache (cacheFile w))" "truthy (getProp (readCache (cacheFile w)) ''patientId'')"
  shows "map req_path (drop (length (sent w)) (sent (snd (fetchAndStoreMeasurement_acquire_p1 sha e p w))))
            = [LluGraph (getProp (readCache (cacheFile w)) ''patientId'')]
    \<and> cacheFile (snd (fetchAndStoreMeasurement_acquire_p1 sha e p w)) = cacheFile w
    \<and> memPatientInfo (snd (fetchAndStoreMeasurement_acquire_p1 sha e p w)) = Some
          \<lparr>pi_firstName = getProp (readCache (cacheFile w)) ''firstName'',
           pi_lastName = getProp (readCache (cacheFile w)) ''lastName'',
           pi_patientId = getProp (readCache (cacheFile w)) ''patientId''\<rparr>
    \<and> memSensorInfo (snd (fetchAndStoreMeasurement_acquire_p1 sha e p w)) =
          sensorInfoOf (getProp (readCache (cacheFile w)) ''sensor'')"
  by (simp add: fetchAndStoreMeasurement_acquire_p1_def login_cached [OF assms(1)]
      resolveSubject_p1_cached [OF assms(2)] Let_def fetchLatest_world http_world
      publishProfile_def buildRequest_def)

lemma resolveSubject_p1_fresh:
  assumes "\<not> truthy (getProp c ''patientId'')" "listsConnection body conn"
    "upstream w = Replies body # rest"
  shows "\<exists>c'. resolveSubject_p1 c w =
       (Inr (Some c'),
        w\<lparr>sent := sent w @ [buildRequest GET LluConnections NoBody None w], upstream := rest,
          cacheFile := writeCache c'\<rparr>)
     \<and> getProp c' ''patientId'' = jsGet conn ''patientId''
     \<and> getProp c' ''firstName'' = jsGet conn ''firstName''
     \<and> getProp c' ''lastName'' = jsGet conn ''lastName''
     \<and> getProp c' ''sensor'' = jsGet conn ''sensor''
     \<and> getProp c' ''token'' = getProp c ''token''
     \<and> getProp c' ''userId'' = getProp c ''userId''
     \<and> getProp c' ''accountIdHash'' = getProp c ''accountIdHash''"
  using assms(1)
  by (simp add: resolveSubject_p1_def getConnection_found [OF assms(2,3)] Let_def getProp_setProp)

lemma acquire_p1_fresh:
  assumes "hasSession (readCache (cacheFile w))"
    "\<not> truthy (getProp (readCache (cacheFile w)) ''patientId'')"
    "listsConnection body conn" "upstream w = Replies body # rest"
  shows "map req_path (drop (length (sent w)) (sent (snd (fetchAndStoreMeasurement_acquire_p1 sha e p w))))
            = [LluConnections, LluGraph (jsGet conn ''patientId'')]
    \<and> hasSession (readCache (cacheFile (snd (fetchAndStoreMeasurement_acquire_p1 sha e p w))))
    \<and> getProp (readCache (cacheFile (snd (fetchAndStoreMeasurement_acquire_p1 sha e p w)))) ''patientId''
         = jsGet conn ''patientId''
    \<and> getProp (readCache (cacheFile (snd (fetchAndStoreMeasurement_acquire_p1 sha e p w)))) ''firstName''
         = jsGet conn ''firstName''
    \<and> getProp (readCache (cacheFile (snd (fetchAndStoreMeasurement_acquire_p1 sha e p w)))) ''lastName''
         = jsGet conn ''lastName''
    \<and> getProp (readCache (cacheFile (snd (fetchAndStoreMeasurement_acquire_p1 sha e p w)))) ''sensor''
         = jsGet conn ''sensor''"
proof -
  let ?c = "readCache (cacheFile w)"
  let ?w2 = "w\<lparr>hdrAuthorization := Some (getProp ?c ''token''),
                hdrAccountId := Some (getProp ?c ''accountIdHash'')\<rparr>"
  have up: "upstream ?w2 = Replies body # rest"
    using assms(4) by simp
  from resolveSubject_p1_fresh [OF assms(2,3) up]
  obtain c' where r: "resolveSubject_p1 ?c ?w2 =
       (Inr (Some c'),
        ?w2\<lparr>sent := sent ?w2 @ [buildRequest GET LluConnections NoBody None ?w2], upstream := rest,
          cacheFile := writeCache c'\<rparr>)"
    and props: "getProp c' ''patientId'' = jsGet conn ''patientId''"
      "getProp c' ''firstName'' = jsGet conn ''firstName''"
      "getProp c' ''lastName'' = jsGet conn ''lastName''"
      "getProp c' ''sensor'' = jsGet conn ''sensor''"
      "getProp c' ''token'' = getProp ?c ''token''"
      "getProp c' ''userId'' = getProp ?c ''userId''"
      "getProp c' ''accountIdHash'' = getProp ?c ''accountIdHash''"
    by blast
  show ?thesis
    using assms(1) props
    by (simp add: fetchAndStoreMeasurement_acquire_p1_def login_cached [OF assms(1)] r Let_def
        fetchLatest_world http_world publishProfile_def buildRequest_def
        getProp_readCache_writeCache hasSession_def)
qed

text \<open>
  Claim C8, as amended: it is part 1 that caches the profile. When a cycle of part 1 that
  runs on a cached session finds no patient id in the cache and the connections request
  is answered with status 0 and a first connection \<open>conn\<close> that has a patient id, the
  cache file then holds the patient id, first name, last name and sensor of \<open>conn\<close>.
  From any later state \<open>v\<close> with that cache file, a cycle sends the graph request for
  the cached patient id and nothing else, publishes the cached profile and leaves the
  cache file as it is, so that the same holds for the cycle after it.
\<close>

theorem profile_cached:
  assumes "hasSession (readCache (cacheFile w))"
    "\<not> truthy (getProp (readCache (cacheFile w)) ''patientId'')"
    "listsConnection body conn" "truthy (jsGet conn ''patientId'')"
    "upstream w = Replies body # rest"
  shows "getProp (readCache (cacheFile (snd (fetchAndStoreMeasurement_acquire_p1 sha e p w)))) ''patientId''
         = jsGet conn ''patientId''
    \<and> getProp (readCache (cacheFile (snd (fetchAndStoreMeasurement_acquire_p1 sha e p w)))) ''firstName''
         = jsGet conn ''firstName''
    \<and> getProp (readCache (cacheFile (snd (fetchAndStoreMeasurement_acquire_p1 sha e p w)))) ''lastName''
         = jsGet conn ''lastName''
    \<and> getProp (readCache (cacheFile (snd (fetchAndStoreMeasurement_acquire_p1 sha e p w)))) ''sensor''
         = jsGet conn ''sensor''
    \<and> (\<forall>v. cacheFile v = cacheFile (snd (fetchAndStoreMeasurement_acquire_p1 sha e p w)) \<longrightarrow>
          map req_path (drop (length (sent v)) (sent (snd (fetchAndStoreMeasurement_acquire_p1 sha e p v))))
            = [LluGraph (jsGet conn ''patientId'')]
          \<and> cacheFile (snd (fetchAndStoreMeasurement_acquire_p1 sha e p v)) = cacheFile v
          \<and> memPatientInfo (snd (fetchAndStoreMeasurement_acquire_p1 sha e p v)) = Some
               \<lparr>pi_firstName = jsGet conn ''firstName'',
                pi_lastName = jsGet conn ''lastName'',
                pi_patientId = jsGet conn ''patientId''\<rparr>
          \<and> memSensorInfo (snd (fetchAndStoreMeasurement_acquire_p1 sha e p v)) =
               sensorInfoOf (jsGet conn ''sensor''))"
proof -
  note first = acquire_p1_fresh [OF assms(1,2,3,5), of sha e p]
  have later: "map req_path (drop (length (sent v)) (sent (snd (fetchAndStoreMeasurement_acquire_p1 sha e p v))))
            = [LluGraph (jsGet conn ''patientId'')]
          \<and> cacheFile (snd (fetchAndStoreMeasurement_acquire_p1 sha e p v)) = cacheFile v
          \<and> memPatientInfo (snd (fetchAndStoreMeasurement_acquire_p1 sha e p v)) = Some
               \<lparr>pi_firstName = jsGet conn ''firstName'',
                pi_lastName = jsGet conn ''lastName'',
                pi_patientId = jsGet conn ''patientId''\<rparr>
          \<and> memSensorInfo (snd (fetchAndStoreMeasurement_acquire_p1 sha e p v)) =
               sensorInfoOf (jsGet conn ''sensor'')"
    if v: "cacheFile v = cacheFile (snd (fetchAndStoreMeasurement_acquire_p1 sha e p w))" for v
  proof -
    have s: "hasSession (readCache (cacheFile v))"
      using first by (simp add: v)
    have p: "truthy (getProp (readCache (cacheFile v)) ''patientId'')"
      using first assms(4) by (simp add: v)
    show ?thesis
      using acquire_p1_cached [OF s p, of sha e p] first by (simp add: v)
  qed
  show ?thesis
    using first later by blast
qed

lemmas sample_eval =
  initialWorld_def sampleSession_def sampleConnection_def sampleLatest_def
  connectionsResponse_def graphResponse_def hasSession_def readCache_def listsConnection_def
  js_eval

theorem profile_cached_witness:
  "hasSession (readCache (cacheFile (initialWorld
       [Replies (connectionsResponse [sampleConnection]), Replies (graphResponse sampleLatest)]
       (Document sampleSession))))
   \<and> \<not> truthy (getProp (readCache (cacheFile (initialWorld
       [Replies (connectionsResponse [sampleConnection]), Replies (graphResponse sampleLatest)]
       (Document sampleSession)))) ''patientId'')
   \<and> listsConnection (connectionsResponse [sampleConnection]) sampleConnection
   \<and> truthy (jsGet sampleConnection ''patientId'')
   \<and> getProp (readCache (cacheFile (snd (fetchAndStoreMeasurement_acquire_p1 rev ''me@example.org'' ''secret''
        (initialWorld
          [Replies (connectionsResponse [sampleConnection]), Replies (graphResponse sampleLatest)]
          (Document sampleSession)))))) ''patientId'' = JStr ''p-1''
   \<and> map req_path (sent (snd (fetchAndStoreMeasurement_acquire_p1 rev ''me@example.org'' ''secret''
        ((snd (fetchAndStoreMeasurement_acquire_p1 rev ''me@example.org'' ''secret''
           (initialWorld
             [Replies (connectionsResponse [sampleConnection]), Replies (graphResponse sampleLatest)]
             (Document sampleSession))))
         \<lparr>sent := [], upstream := [Replies (graphResponse sampleLatest)]\<rparr>))))
      = [LluGraph (JStr ''p-1'')]"
proof -
  let ?w = "initialWorld
       [Replies (connectionsResponse [sampleConnection]), Replies (graphResponse sampleLatest)]
       (Document sampleSession)"
  let ?w' = "snd (fetchAndStoreMeasurement_acquire_p1 rev ''me@example.org'' ''secret'' ?w)"
  let ?v = "?w'\<lparr>sent := [], upstream := [Replies (graphResponse sampleLatest)]\<rparr>"
  have h1: "hasSession (readCache (cacheFile ?w))"
    by (simp add: sample_eval)
  have h2: "\<not> truthy (getProp (readCache (cacheFile ?w)) ''patientId'')"
    by (simp add: sample_eval)
  have h3: "listsConnection (connectionsResponse [sampleConnection]) sampleConnection"
    by (simp add: sample_eval)
  have h4: "truthy (jsGet sampleConnection ''patientId'')"
    by (simp add: sample_eval)
  have h5: "upstream ?w = Replies (connectionsResponse [sampleConnection]) # [Replies (graphResponse sampleLatest)]"
    by (simp add: initialWorld_def)
  note t = profile_cached [OF h1 h2 h3 h4 h5, of rev "''me@example.org''" "''secret''"]
  have p: "jsGet sampleConnection ''patientId'' = JStr ''p-1''"
    by (simp add: sample_eval)
  have a: "getProp (readCache (cacheFile ?w')) ''patientId'' = JStr ''p-1''"
    using t p by simp
  have "cacheFile ?v = cacheFile ?w'" by simp
  with t have "map req_path (drop (length (sent ?v))
        (sent (snd (fetchAndStoreMeasurement_acquire_p1 rev ''me@example.org'' ''secret'' ?v))))
      = [LluGraph (jsGet sampleConnection ''patientId'')]"
    by blast
  then have b: "map req_path (sent (snd (fetchAndStoreMeasurement_acquire_p1 rev ''me@example.org'' ''secret'' ?v)))
      = [LluGraph (JStr ''p-1'')]"
    by (simp add: p)
  show ?thesis
    using h1 h2 h3 h4 a b by blast
qed

lemmas cycle_eval =
  fetchAndStoreMeasurement_acquire_def fetchAndStoreMeasurement_login_def getConnection_def
  fetchLatest_def http_def buildRequest_def Let_def

text \<open>
  Claim C8 as stated fails on \<^verbatim>\<open>main_server.js\<close>: a cycle that has resolved the
  subject leaves the cache file without the profile, and the next cycle lists the
  connections again.
\<close>

theorem profile_cached_counterexample:
  "fst (fetchAndStoreMeasurement_acquire rev ''me@example.org'' ''secret''
        (initialWorld
          [Replies (connectionsResponse [sampleConnection]), Replies (graphResponse sampleLatest),
           Replies (connectionsResponse [sampleConnection]), Replies (graphResponse sampleLatest)]
          (Document sampleSession)))
      = Inr (Some \<lparr>acq_patientId = JStr ''p-1'', acq_firstName = JStr ''Ada'',
                    acq_lastName = JStr ''Byron'',
                    acq_sensor = JObj [(''sn'', JStr ''0M0063KNUJ0''), (''a'', JNum 1727000000), (''pt'', JNum 4)],
                    acq_latest = sampleLatest\<rparr>)
   \<and> cacheFile (snd (fetchAndStoreMeasurement_acquire rev ''me@example.org'' ''secret''
        (initialWorld
          [Replies (connectionsResponse [sampleConnection]), Replies (graphResponse sampleLatest),
           Replies (connectionsResponse [sampleConnection]), Replies (graphResponse sampleLatest)]
          (Document sampleSession))))
      = Document sampleSession
   \<and> map req_path (sent (snd (fetchAndStoreMeasurement_acquire rev ''me@example.org'' ''secret''
        (snd (fetchAndStoreMeasurement_acquire rev ''me@example.org'' ''secret''
          (initialWorld
            [Replies (connectionsResponse [sampleConnection]), Replies (graphResponse sampleLatest),
             Replies (connectionsResponse [sampleConnection]), Replies (graphResponse sampleLatest)]
            (Document sampleSession)))))))
      = [LluConnections, LluGraph (JStr ''p-1''), LluConnections, LluGraph (JStr ''p-1'')]"
  by (simp add: cycle_eval sample_eval)











end
